theory Spec2Isabelle
  imports Complex_Main
begin

section \<open>JavaScript values\<close>

text \<open>
  The server is JavaScript and the payloads of its AI providers are whatever
  \<^verbatim>\<open>JSON.parse\<close> returns, so the values the code computes with are modelled as they
  are at run time. A JavaScript number is a finite double, an infinity or NaN. The code
  modelled here compares numbers and takes minima and maxima, which are exact on
  doubles, and adds up a score, where rounding is not modelled; so a finite number is a
  \<^typ>\<open>real\<close>. \<^verbatim>\<open>-0\<close> is identified with \<^verbatim>\<open>0\<close> (both are falsy and compare equal).
\<close>

datatype jsnum = NaN | NegInf | Fin real | PosInf

datatype js =
    Undefined
  | Null
  | Bool bool
  | Num jsnum
  | Str string
  | Arr "js list"
  | Obj "(string \<times> js) list"

text \<open>\<^verbatim>\<open>a <= b\<close> on numbers: false as soon as one side is NaN.\<close>

fun num_le :: "jsnum \<Rightarrow> jsnum \<Rightarrow> bool" where
  "num_le NaN _ = False"
| "num_le _ NaN = False"
| "num_le NegInf _ = True"
| "num_le _ PosInf = True"
| "num_le (Fin a) (Fin b) = (a \<le> b)"
| "num_le _ _ = False"

text \<open>\<^verbatim>\<open>Math.min\<close> and \<^verbatim>\<open>Math.max\<close> of two numbers: NaN if either is NaN.\<close>

definition math_min :: "jsnum \<Rightarrow> jsnum \<Rightarrow> jsnum" where
  "math_min a b = (if a = NaN \<or> b = NaN then NaN else if num_le a b then a else b)"

definition math_max :: "jsnum \<Rightarrow> jsnum \<Rightarrow> jsnum" where
  "math_max a b = (if a = NaN \<or> b = NaN then NaN else if num_le a b then b else a)"

text \<open>Truthiness, as \<^verbatim>\<open>||\<close>, \<^verbatim>\<open>!\<close> and \<^verbatim>\<open>if\<close> test it.\<close>

fun truthy :: "js \<Rightarrow> bool" where
  "truthy Undefined = False"
| "truthy Null = False"
| "truthy (Bool b) = b"
| "truthy (Num n) = (n \<noteq> NaN \<and> n \<noteq> Fin 0)"
| "truthy (Str s) = (s \<noteq> [])"
| "truthy (Arr _) = True"
| "truthy (Obj _) = True"

text \<open>\<^verbatim>\<open>a || b\<close> and \<^verbatim>\<open>a ?? b\<close>.\<close>

definition js_or :: "js \<Rightarrow> js \<Rightarrow> js" where
  "js_or a b = (if truthy a then a else b)"

definition js_nullish :: "js \<Rightarrow> js \<Rightarrow> js" where
  "js_nullish a b = (if a = Undefined \<or> a = Null then b else a)"

text \<open>
  ToNumber, which \<^verbatim>\<open>Math.min\<close>, \<^verbatim>\<open>Math.max\<close> and \<^verbatim>\<open>>=\<close> against a number
  apply to their operands. The conversion of strings, arrays and objects is the
  engine's (number syntax, \<^verbatim>\<open>toString\<close> of arrays); it is the parameter \<open>cv\<close>, and
  nothing below depends on what it returns.
\<close>

fun to_number :: "(js \<Rightarrow> jsnum) \<Rightarrow> js \<Rightarrow> jsnum" where
  "to_number cv Undefined = NaN"
| "to_number cv Null = Fin 0"
| "to_number cv (Bool b) = Fin (if b then 1 else 0)"
| "to_number cv (Num n) = n"
| "to_number cv v = cv v"

text \<open>
  Reading a property: \<^verbatim>\<open>v.k\<close> throws a TypeError on \<^verbatim>\<open>null\<close> and \<^verbatim>\<open>undefined\<close>
  (the result \<open>None\<close>), finds an own property of a parsed object, and is
  \<^verbatim>\<open>undefined\<close> otherwise. Only property names that no primitive or array has
  by itself are read through it.
\<close>

fun get_prop :: "js \<Rightarrow> string \<Rightarrow> js option" where
  "get_prop Undefined k = None"
| "get_prop Null k = None"
| "get_prop (Obj kvs) k = Some (case map_of kvs k of None \<Rightarrow> Undefined | Some v \<Rightarrow> v)"
| "get_prop v k = Some Undefined"

text \<open>\<^verbatim>\<open>v?.k\<close>: \<^verbatim>\<open>undefined\<close> where \<^verbatim>\<open>v.k\<close> would throw.\<close>

definition get_opt :: "js \<Rightarrow> string \<Rightarrow> js" where
  "get_opt v k = (case get_prop v k of None \<Rightarrow> Undefined | Some x \<Rightarrow> x)"

section \<open>Tier system\<close>

record tier_entry =
  name :: string
  minScore :: real
  type :: string

definition TIERS :: "tier_entry list" where
  "TIERS =
    [\<lparr>name = ''Final Boss Mogger'', minScore = 97, type = ''mythic''\<rparr>,
     \<lparr>name = ''Mogger'', minScore = 93, type = ''legendary''\<rparr>,
     \<lparr>name = ''Gigachad'', minScore = 88, type = ''epic''\<rparr>,
     \<lparr>name = ''Chad'', minScore = 78, type = ''rare''\<rparr>,
     \<lparr>name = ''Chadlite'', minScore = 68, type = ''uncommon''\<rparr>,
     \<lparr>name = ''High-Tier Normie'', minScore = 55, type = ''common''\<rparr>,
     \<lparr>name = ''Normie'', minScore = 45, type = ''common''\<rparr>,
     \<lparr>name = ''Low-Tier Normie'', minScore = 35, type = ''common''\<rparr>,
     \<lparr>name = ''Gym Bro'', minScore = 0, type = ''starter''\<rparr>]"

text \<open>The loop of \<^verbatim>\<open>getTierFromScore\<close> over a table, with its final \<^verbatim>\<open>return\<close>.\<close>

fun tier_scan :: "jsnum \<Rightarrow> tier_entry list \<Rightarrow> string" where
  "tier_scan s [] = ''Gym Bro''"
| "tier_scan s (t # ts) = (if num_le (Fin (minScore t)) s then name t else tier_scan s ts)"

definition getTierFromScore :: "(js \<Rightarrow> jsnum) \<Rightarrow> js \<Rightarrow> string" where
  "getTierFromScore cv score = tier_scan (to_number cv score) TIERS"

text \<open>
  The order of the tiers is the order of the table, highest first: the rank of a label
  is the number of entries below it.
\<close>

definition tier_rank :: "string \<Rightarrow> nat" where
  "tier_rank n = length (tl (dropWhile (\<lambda>t. name t \<noteq> n) TIERS))"

section \<open>Analysis normalizer\<close>

record muscle_scores =
  chest :: js
  shoulders :: js
  back' :: js
  arms :: js
  legs :: js
  core :: js
  leanness :: js

record normalized_analysis =
  isValidPhysique :: bool
  mogScore :: jsnum
  tier :: string
  muscleBreakdown :: muscle_scores
  notVisible :: js
  weakPoints :: js
  strongPoints :: js
  symmetry :: js
  overallAssessment :: js
  improvementTips :: js
  scanSteps :: js
  aiPowered :: bool

text \<open>
  What \<^verbatim>\<open>analyzePhysiqueWithAI\<close> returns once the provider's text has been parsed:
  the rejection object, the normalized analysis, or the simulated analysis of its
  \<^verbatim>\<open>catch\<close> (reading a property of a parsed \<^verbatim>\<open>null\<close> throws).
\<close>

datatype analysis_result = Rejected js | Accepted normalized_analysis | Simulated

text \<open>
  The tail of \<^verbatim>\<open>analyzePhysiqueWithAI\<close>, from the parsed \<^verbatim>\<open>analysis\<close> on: the
  \<^verbatim>\<open>isValidPhysique === false\<close> test and the object literal \<^verbatim>\<open>normalizedAnalysis\<close>.
\<close>

definition normalizedAnalysis :: "(js \<Rightarrow> jsnum) \<Rightarrow> js \<Rightarrow> analysis_result" where
  "normalizedAnalysis cv analysis =
     (case get_prop analysis ''isValidPhysique'' of
        None \<Rightarrow> Simulated
      | Some valid \<Rightarrow>
          if valid = Bool False
          then Rejected (js_or (get_opt analysis ''errorMessage'')
                  (Str ''Please upload a clear photo of your physique for accurate analysis.''))
          else Accepted
            \<lparr>isValidPhysique = True,
             mogScore = math_max (Fin 0) (math_min (Fin 100)
                          (to_number cv (js_or (get_opt analysis ''mogScore'') (Num (Fin 50))))),
             tier = getTierFromScore cv (js_or (get_opt analysis ''mogScore'') (Num (Fin 50))),
             muscleBreakdown =
               \<lparr>chest = js_nullish (get_opt (get_opt analysis ''muscleBreakdown'') ''chest'') Null,
                shoulders = js_nullish (get_opt (get_opt analysis ''muscleBreakdown'') ''shoulders'') Null,
                back' = js_nullish (get_opt (get_opt analysis ''muscleBreakdown'') ''back'') Null,
                arms = js_nullish (get_opt (get_opt analysis ''muscleBreakdown'') ''arms'') Null,
                legs = js_nullish (get_opt (get_opt analysis ''muscleBreakdown'') ''legs'') Null,
                core = js_nullish (get_opt (get_opt analysis ''muscleBreakdown'') ''core'') Null,
                leanness = js_nullish (get_opt (get_opt analysis ''muscleBreakdown'') ''leanness'') Null\<rparr>,
             notVisible = js_or (get_opt analysis ''notVisible'') (Arr []),
             weakPoints = js_or (get_opt analysis ''weakPoints'') (Arr []),
             strongPoints = js_or (get_opt analysis ''strongPoints'') (Arr []),
             symmetry = js_or (get_opt analysis ''symmetry'') (Num (Fin 70)),
             overallAssessment = js_or (get_opt analysis ''overallAssessment'') (Str ''Analysis complete.''),
             improvementTips = js_or (get_opt analysis ''improvementTips'') (Arr []),
             scanSteps = js_or (get_opt analysis ''scanSteps'') (Arr []),
             aiPowered = True\<rparr>)"

text \<open>A numeric field lies in \<open>[0,100]\<close>; a field that is not a number has no value to bound.\<close>

definition num_in_range :: "jsnum \<Rightarrow> bool" where
  "num_in_range n = (num_le (Fin 0) n \<and> num_le n (Fin 100))"

fun field_in_range :: "js \<Rightarrow> bool" where
  "field_in_range (Num n) = num_in_range n"
| "field_in_range _ = True"

text \<open>
  A conversion to run the definitions with: an engine for which no string, array or
  object is numeric.
\<close>

definition no_conversion :: "js \<Rightarrow> jsnum" where
  "no_conversion v = NaN"

section \<open>Identity consistency check\<close>

text \<open>
  The identity provider's reply as \<^verbatim>\<open>verifyUserIdentity\<close> sees it: the call or
  \<^verbatim>\<open>JSON.parse\<close> throws (with a message), or \<^verbatim>\<open>JSON.parse\<close> returns a value.
\<close>

datatype provider_reply = CallFailed string | Reply js

record identity_check =
  isSamePerson :: js
  confidence :: js
  reason :: js
  error :: "string option"

fun is_string :: "js \<Rightarrow> bool" where
  "is_string (Str _) = True"
| "is_string _ = False"

text \<open>
  \<open>api\<close> is \<^verbatim>\<open>OPENAI_API_KEY && openai\<close>. A photo that is truthy but not a string has
  no \<^verbatim>\<open>startsWith\<close>: the TypeError is caught like every other error of the
  \<^verbatim>\<open>try\<close> block.
\<close>

definition verifyUserIdentity :: "bool \<Rightarrow> js \<Rightarrow> js \<Rightarrow> provider_reply \<Rightarrow> identity_check" where
  "verifyUserIdentity api newFrontPhoto previousFrontPhoto reply =
     (if \<not> api
      then \<lparr>isSamePerson = Bool True, confidence = Undefined, reason = Undefined, error = None\<rparr>
      else if \<not> truthy newFrontPhoto \<or> \<not> truthy previousFrontPhoto
      then \<lparr>isSamePerson = Bool True, confidence = Undefined, reason = Undefined, error = None\<rparr>
      else if \<not> is_string newFrontPhoto \<or> \<not> is_string previousFrontPhoto
      then \<lparr>isSamePerson = Bool True, confidence = Undefined, reason = Undefined,
            error = Some ''startsWith is not a function''\<rparr>
      else (case reply of
              CallFailed m \<Rightarrow>
                \<lparr>isSamePerson = Bool True, confidence = Undefined, reason = Undefined, error = Some m\<rparr>
            | Reply result \<Rightarrow>
                (case get_prop result ''isSamePerson'' of
                   None \<Rightarrow>
                     \<lparr>isSamePerson = Bool True, confidence = Undefined, reason = Undefined,
                      error = Some ''Cannot read properties of null''\<rparr>
                 | Some v \<Rightarrow>
                     \<lparr>isSamePerson = v, confidence = get_opt result ''confidence'',
                      reason = get_opt result ''reason'', error = None\<rparr>)))"

record scan_doc =
  frontPhotoUrl :: js

text \<open>
  The identity block of \<^verbatim>\<open>POST /api/scan/analyze\<close>: \<open>previousScan\<close> is the user's most
  recent stored scan. The request goes on to the analysis (\<open>Proceed\<close>) or is answered
  with status 400 and \<^verbatim>\<open>differentUser: true\<close>, carrying the check's reason and confidence.
\<close>

datatype identity_gate = Proceed | DifferentUser js js

definition scan_identity_block ::
  "bool \<Rightarrow> js \<Rightarrow> scan_doc option \<Rightarrow> js \<Rightarrow> provider_reply \<Rightarrow> identity_gate" where
  "scan_identity_block api userId previousScan frontPhoto reply =
     (if truthy userId
      then (case previousScan of
              None \<Rightarrow> Proceed
            | Some scan \<Rightarrow>
                if truthy (frontPhotoUrl scan)
                then (let identityCheck = verifyUserIdentity api frontPhoto (frontPhotoUrl scan) reply
                      in if \<not> truthy (isSamePerson identityCheck)
                         then DifferentUser (reason identityCheck) (confidence identityCheck)
                         else Proceed)
                else Proceed)
      else Proceed)"

section \<open>Plan generator\<close>

text \<open>Template strings print numbers in decimal.\<close>

fun show_nat :: "nat \<Rightarrow> string" where
  "show_nat n =
     (if n < 10 then [char_of (48 + n)] else show_nat (n div 10) @ [char_of (48 + n mod 10)])"

declare show_nat.simps [simp del]

definition show_int :: "int \<Rightarrow> string" where
  "show_int i = (if i < 0 then CHR ''-'' # show_nat (nat (- i)) else show_nat (nat i))"

text \<open>
  \<^verbatim>\<open>v.length\<close> of a value that is not \<^verbatim>\<open>null\<close> or \<^verbatim>\<open>undefined\<close>. A string's length
  is counted in characters of the model.
\<close>

fun js_length :: "js \<Rightarrow> js" where
  "js_length (Arr xs) = Num (Fin (real (length xs)))"
| "js_length (Str s) = Num (Fin (real (length s)))"
| "js_length (Obj kvs) = (case map_of kvs ''length'' of None \<Rightarrow> Undefined | Some v \<Rightarrow> v)"
| "js_length _ = Undefined"

text \<open>\<^verbatim>\<open>v >= n\<close> and \<^verbatim>\<open>v < n\<close> against a number literal.\<close>

definition js_ge :: "(js \<Rightarrow> jsnum) \<Rightarrow> js \<Rightarrow> real \<Rightarrow> bool" where
  "js_ge cv v n = num_le (Fin n) (to_number cv v)"

definition js_lt :: "(js \<Rightarrow> jsnum) \<Rightarrow> js \<Rightarrow> real \<Rightarrow> bool" where
  "js_lt cv v n = (num_le (to_number cv v) (Fin n) \<and> \<not> num_le (Fin n) (to_number cv v))"

text \<open>
  The elements \<^verbatim>\<open>v.map(f)\<close> iterates over; only an array has a \<^verbatim>\<open>map\<close> method, and
  on any other value the call is a TypeError (\<open>None\<close>).
\<close>

fun as_array :: "js \<Rightarrow> js list option" where
  "as_array (Arr xs) = Some xs"
| "as_array _ = None"

text \<open>\<^verbatim>\<open>xs.map((x, i) => f i x)\<close> where \<open>f\<close> may throw: the first throw aborts the map.\<close>

fun map_index :: "(nat \<Rightarrow> js \<Rightarrow> js option) \<Rightarrow> nat \<Rightarrow> js list \<Rightarrow> js list option" where
  "map_index f i [] = Some []"
| "map_index f i (x # xs) =
     (case f i x of
        None \<Rightarrow> None
      | Some y \<Rightarrow> (case map_index f (Suc i) xs of None \<Rightarrow> None | Some ys \<Rightarrow> Some (y # ys)))"

text \<open>The own properties that \<^verbatim>\<open>{...v}\<close> copies.\<close>

fun spread :: "js \<Rightarrow> (string \<times> js) list" where
  "spread (Obj kvs) = kvs"
| "spread (Arr xs) = zip (map show_nat [0..<length xs]) xs"
| "spread (Str s) = zip (map show_nat [0..<length s]) (map (\<lambda>c. Str [c]) s)"
| "spread _ = []"

text \<open>Writing a property of an object: in place if it is there, at the end otherwise.\<close>

fun set_prop :: "string \<Rightarrow> js \<Rightarrow> (string \<times> js) list \<Rightarrow> (string \<times> js) list" where
  "set_prop k v [] = [(k, v)]"
| "set_prop k v ((k', v') # kvs) =
     (if k' = k then (k, v) # kvs else (k', v') # set_prop k v kvs)"

definition defaultSteps :: "js list" where
  "defaultSteps =
     [Obj [(''stepNumber'', Num (Fin 1)), (''title'', Str ''Set 1 - Warm Up''),
           (''description'', Str ''Start light and focus on form''), (''duration'', Num (Fin 60))],
      Obj [(''stepNumber'', Num (Fin 2)), (''title'', Str ''Set 2 - Build Up''),
           (''description'', Str ''Increase weight, maintain control''), (''duration'', Num (Fin 60))],
      Obj [(''stepNumber'', Num (Fin 3)), (''title'', Str ''Set 3 - Working Set''),
           (''description'', Str ''Push yourself, feel the burn''), (''duration'', Num (Fin 60))],
      Obj [(''stepNumber'', Num (Fin 4)), (''title'', Str ''Set 4 - Final Set''),
           (''description'', Str ''Give it everything you have!''), (''duration'', Num (Fin 60))]]"

text \<open>
  The structural repair of \<^verbatim>\<open>generateAITrainingPlan\<close> and \<^verbatim>\<open>generateNextWeekPlan\<close>
  (the two \<^verbatim>\<open>map\<close> expressions are the same text, except that the second adds
  \<^verbatim>\<open>completed: false\<close> to a day: the flag \<open>progressive\<close>). Reading a property of a
  \<^verbatim>\<open>null\<close> step, exercise or day throws.
\<close>

definition repair_step :: "(js \<Rightarrow> jsnum) \<Rightarrow> nat \<Rightarrow> js \<Rightarrow> js option" where
  "repair_step cv stepIndex step =
     (case get_prop step ''title'' of
        None \<Rightarrow> None
      | Some title \<Rightarrow>
          Some (Obj [(''stepNumber'', Num (Fin (real (stepIndex + 1)))),
                     (''title'', js_or title (Str (''Set '' @ show_nat (stepIndex + 1)))),
                     (''description'',
                        js_or (get_opt step ''description'') (Str ''Complete this set with good form'')),
                     (''duration'',
                        Num (math_max (Fin 60)
                          (to_number cv (js_or (get_opt step ''duration'') (Num (Fin 60))))))]))"

definition repair_steps :: "(js \<Rightarrow> jsnum) \<Rightarrow> js \<Rightarrow> js option" where
  "repair_steps cv steps =
     (if truthy steps \<and> js_ge cv (js_length steps) 3
      then (case as_array steps of
              None \<Rightarrow> None
            | Some ss \<Rightarrow> map_option Arr (map_index (repair_step cv) 0 ss))
      else Some (Arr (take 4 defaultSteps)))"

definition repair_exercise :: "(js \<Rightarrow> jsnum) \<Rightarrow> nat \<Rightarrow> nat \<Rightarrow> js \<Rightarrow> js option" where
  "repair_exercise cv index exIndex ex =
     (case get_prop ex ''id'' of
        None \<Rightarrow> None
      | Some ident \<Rightarrow>
          (case repair_steps cv (get_opt ex ''steps'') of
             None \<Rightarrow> None
           | Some steps \<Rightarrow>
               Some (Obj [(''id'', js_or ident
                             (Str (''ex-'' @ show_nat (index + 1) @ ''-'' @ show_nat (exIndex + 1)))),
                          (''name'', js_or (get_opt ex ''name'')
                             (Str (''Exercise '' @ show_nat (exIndex + 1)))),
                          (''sets'', js_or (get_opt ex ''sets'') (Str ''4 x 10'')),
                          (''note'', js_or (get_opt ex ''note'') (Str ''Focus on proper form'')),
                          (''badge'', js_or (get_opt ex ''badge'') Null),
                          (''badgeColor'', js_or (get_opt ex ''badgeColor'') Null),
                          (''borderColor'', js_or (get_opt ex ''borderColor'') (Str ''#3A2A4A'')),
                          (''completed'', Bool False),
                          (''steps'', steps)])))"

definition repair_day :: "(js \<Rightarrow> jsnum) \<Rightarrow> bool \<Rightarrow> nat \<Rightarrow> js \<Rightarrow> js option" where
  "repair_day cv progressive index day =
     (case get_prop day ''title'' of
        None \<Rightarrow> None
      | Some title \<Rightarrow>
          (case as_array (js_or (get_opt day ''exercises'') (Arr [])) of
             None \<Rightarrow> None
           | Some exs \<Rightarrow>
               (case map_index (repair_exercise cv index) 0 exs of
                  None \<Rightarrow> None
                | Some exercises \<Rightarrow>
                    Some (Obj ([(''day'', Num (Fin (real (index + 1)))),
                                (''title'', js_or title (Str (''Training Day '' @ show_nat (index + 1)))),
                                (''description'', js_or (get_opt day ''description'') (Str [])),
                                (''type'', js_or (get_opt day ''type'') (Str ''Strength'')),
                                (''typeColor'', js_or (get_opt day ''typeColor'') (Str ''#4A7CFF'')),
                                (''status'', Str (if index = 0 then ''today'' else ''upcoming'')),
                                (''duration'', js_or (get_opt day ''duration'') (Str ''45 min'')),
                                (''caloriesBurn'', js_or (get_opt day ''caloriesBurn'') (Num (Fin 300))),
                                (''targetMuscles'', js_or (get_opt day ''targetMuscles'') (Arr []))]
                               @ (if progressive then [(''completed'', Bool False)] else [])
                               @ [(''exercises'', Arr exercises)])))))"

definition formatted_days :: "(js \<Rightarrow> jsnum) \<Rightarrow> bool \<Rightarrow> js \<Rightarrow> js list option" where
  "formatted_days cv progressive days =
     (case as_array (js_or days (Arr [])) of
        None \<Rightarrow> None
      | Some ds \<Rightarrow> map_index (repair_day cv progressive) 0 ds)"

text \<open>
  What a chat completion gives the generator: \<open>NoPlan\<close> when the call throws, the
  response has no message or an empty text, or \<^verbatim>\<open>JSON.parse\<close> throws or returns
  \<^verbatim>\<open>null\<close>; \<open>Parsed\<close> with the properties of the parsed object otherwise. A reply
  whose JSON is a number, a string or an array has no days and is not modelled.
\<close>

datatype completion = NoPlan | Parsed "(string \<times> js) list"

definition prop_of :: "(string \<times> js) list \<Rightarrow> string \<Rightarrow> js" where
  "prop_of kvs k = (case map_of kvs k of None \<Rightarrow> Undefined | Some v \<Rightarrow> v)"

text \<open>
  The plan object a generator returns: the properties the code sets, and in \<open>provided\<close>
  the provider's object, whose other properties the plan keeps. The ISO date strings
  \<^verbatim>\<open>startDate\<close>, \<^verbatim>\<open>endDate\<close> and \<^verbatim>\<open>generatedAt\<close> are left out.
\<close>

record generated_plan =
  weekId :: string
  mission :: js
  expectedGain :: js
  days :: "js list"
  provided :: "(string \<times> js) list"

text \<open>The fallback of \<^verbatim>\<open>generateAITrainingPlan\<close>: the days are the provider's, renumbered.\<close>

definition renumber_day :: "nat \<Rightarrow> js \<Rightarrow> js option" where
  "renumber_day index day =
     Some (Obj (set_prop ''status'' (Str (if index = 0 then ''today'' else ''upcoming''))
                 (set_prop ''day'' (Num (Fin (real (index + 1)))) (spread day))))"

text \<open>
  \<^verbatim>\<open>generateAITrainingPlan\<close>. \<open>openai\<close>: the client exists; \<open>prompt_built\<close>: building
  \<^verbatim>\<open>systemPrompt\<close> from the scan data did not throw (it does outside the \<^verbatim>\<open>try\<close>,
  when \<^verbatim>\<open>weakPoints\<close> or \<^verbatim>\<open>strongPoints\<close> has no \<^verbatim>\<open>join\<close>); \<open>now\<close>: the clock;
  \<open>primary\<close> and \<open>fallback\<close>: the two completions. \<open>None\<close>: the function throws.
\<close>

definition generateAITrainingPlan ::
  "(js \<Rightarrow> jsnum) \<Rightarrow> bool \<Rightarrow> bool \<Rightarrow> nat \<Rightarrow> completion \<Rightarrow> completion \<Rightarrow> generated_plan option" where
  "generateAITrainingPlan cv openai prompt_built now primary fallback =
     (if \<not> openai \<or> \<not> prompt_built then None
      else
        (case (case primary of
                 NoPlan \<Rightarrow> None
               | Parsed plan \<Rightarrow>
                   (case formatted_days cv False (prop_of plan ''days'') of
                      None \<Rightarrow> None
                    | Some ds \<Rightarrow>
                        Some \<lparr>weekId = ''week-'' @ show_nat now,
                              mission = js_or (prop_of plan ''mission'') (Str ''Transform your physique''),
                              expectedGain = js_or (prop_of plan ''expectedGain'') (Num (Fin 1)),
                              days = ds,
                              provided = plan\<rparr>)) of
           Some plan \<Rightarrow> Some plan
         | None \<Rightarrow>
             (case fallback of
                NoPlan \<Rightarrow> None
              | Parsed fallbackPlan \<Rightarrow>
                  (case as_array (js_or (prop_of fallbackPlan ''days'') (Arr [])) of
                     None \<Rightarrow> None
                   | Some ds \<Rightarrow>
                       (case map_index renumber_day 0 ds of
                          None \<Rightarrow> None
                        | Some ds' \<Rightarrow>
                            Some \<lparr>weekId = ''week-'' @ show_nat now,
                                  mission = prop_of fallbackPlan ''mission'',
                                  expectedGain = prop_of fallbackPlan ''expectedGain'',
                                  days = ds',
                                  provided = fallbackPlan\<rparr>)))))"

text \<open>The fallback of \<^verbatim>\<open>generateNextWeekPlan\<close> gives every exercise four fixed steps.\<close>

definition fallback_steps :: "js list" where
  "fallback_steps =
     [Obj [(''stepNumber'', Num (Fin 1)), (''title'', Str ''Set 1''),
           (''description'', Str ''Warm up set''), (''duration'', Num (Fin 60))],
      Obj [(''stepNumber'', Num (Fin 2)), (''title'', Str ''Set 2''),
           (''description'', Str ''Build up''), (''duration'', Num (Fin 60))],
      Obj [(''stepNumber'', Num (Fin 3)), (''title'', Str ''Set 3''),
           (''description'', Str ''Working set''), (''duration'', Num (Fin 60))],
      Obj [(''stepNumber'', Num (Fin 4)), (''title'', Str ''Set 4''),
           (''description'', Str ''Final push''), (''duration'', Num (Fin 60))]]"

definition fallback_exercise :: "nat \<Rightarrow> nat \<Rightarrow> js \<Rightarrow> js option" where
  "fallback_exercise index exIndex ex =
     (case get_prop ex ''name'' of
        None \<Rightarrow> None
      | Some nm \<Rightarrow>
          Some (Obj [(''id'', Str (''ex-'' @ show_nat (index + 1) @ ''-'' @ show_nat (exIndex + 1))),
                     (''name'', js_or nm (Str (''Exercise '' @ show_nat (exIndex + 1)))),
                     (''sets'', js_or (get_opt ex ''sets'') (Str ''4 x 10'')),
                     (''note'', js_or (get_opt ex ''note'') (Str ''Focus on form'')),
                     (''steps'', Arr fallback_steps)]))"

definition fallback_day :: "nat \<Rightarrow> js \<Rightarrow> js option" where
  "fallback_day index day =
     (case get_prop day ''title'' of
        None \<Rightarrow> None
      | Some title \<Rightarrow>
          (case as_array (js_or (get_opt day ''exercises'') (Arr [])) of
             None \<Rightarrow> None
           | Some exs \<Rightarrow>
               (case map_index (fallback_exercise index) 0 exs of
                  None \<Rightarrow> None
                | Some exercises \<Rightarrow>
                    Some (Obj [(''day'', Num (Fin (real (index + 1)))),
                               (''title'', js_or title (Str (''Training Day '' @ show_nat (index + 1)))),
                               (''type'', js_or (get_opt day ''type'') (Str ''Strength'')),
                               (''typeColor'', js_or (get_opt day ''typeColor'') (Str ''#4A7CFF'')),
                               (''status'', Str (if index = 0 then ''today'' else ''upcoming'')),
                               (''targetMuscles'', js_or (get_opt day ''targetMuscles'') (Arr [])),
                               (''completed'', Bool False),
                               (''exercises'', Arr exercises)]))))"

text \<open>
  \<^verbatim>\<open>generateNextWeekPlan\<close>, the progressive mode. \<open>prompt_built\<close>: the scan lookup and
  the construction of \<^verbatim>\<open>systemPrompt\<close> from the last week did not throw. The result is
  the list of days; \<open>None\<close>: the function throws.
\<close>

definition generateNextWeekPlan ::
  "(js \<Rightarrow> jsnum) \<Rightarrow> bool \<Rightarrow> bool \<Rightarrow> completion \<Rightarrow> completion \<Rightarrow> js list option" where
  "generateNextWeekPlan cv openai prompt_built primary fallback =
     (if \<not> openai \<or> \<not> prompt_built then None
      else
        (case (case primary of
                 NoPlan \<Rightarrow> None
               | Parsed plan \<Rightarrow> formatted_days cv True (prop_of plan ''days'')) of
           Some formattedDays \<Rightarrow> Some formattedDays
         | None \<Rightarrow>
             (case fallback of
                NoPlan \<Rightarrow> None
              | Parsed fallbackPlan \<Rightarrow>
                  (case as_array (js_or (prop_of fallbackPlan ''days'') (Arr [])) of
                     None \<Rightarrow> None
                   | Some ds \<Rightarrow> map_index fallback_day 0 ds))))"

text \<open>
  The Exercise invariant on the days of a plan: every exercise of every day has at least
  three steps. An exercise whose \<^verbatim>\<open>steps\<close> is not an array has none.
\<close>

definition steps_of :: "js \<Rightarrow> js list" where
  "steps_of ex = (case get_opt ex ''steps'' of Arr ss \<Rightarrow> ss | _ \<Rightarrow> [])"

definition exercises_of :: "js \<Rightarrow> js list" where
  "exercises_of day = (case get_opt day ''exercises'' of Arr exs \<Rightarrow> exs | _ \<Rightarrow> [])"

definition exercise_invariant :: "js list \<Rightarrow> bool" where
  "exercise_invariant ds =
     list_all (\<lambda>day. list_all (\<lambda>ex. 3 \<le> length (steps_of ex)) (exercises_of day)) ds"

section \<open>Serving a stored plan\<close>

text \<open>
  \<^verbatim>\<open>isPlanComplete\<close> of \<^verbatim>\<open>GET /api/training/:userId/weekly\<close> on the stored array of
  days. \<open>None\<close>: a TypeError (a \<^verbatim>\<open>null\<close> day or exercise, or \<^verbatim>\<open>for ... of\<close> over a
  value that is not iterable). Iterating a non-empty string visits its characters, which
  have no steps.
\<close>

fun exercises_complete :: "(js \<Rightarrow> jsnum) \<Rightarrow> js list \<Rightarrow> bool option" where
  "exercises_complete cv [] = Some True"
| "exercises_complete cv (ex # exs) =
     (case get_prop ex ''steps'' of
        None \<Rightarrow> None
      | Some steps \<Rightarrow>
          if \<not> truthy steps \<or> js_lt cv (js_length steps) 2 then Some False
          else exercises_complete cv exs)"

fun days_complete :: "(js \<Rightarrow> jsnum) \<Rightarrow> js list \<Rightarrow> bool option" where
  "days_complete cv [] = Some True"
| "days_complete cv (day # ds) =
     (case get_prop day ''exercises'' of
        None \<Rightarrow> None
      | Some exercises \<Rightarrow>
          if \<not> truthy exercises \<or> js_length exercises = Num (Fin 0) then Some False
          else (case exercises of
                  Arr exs \<Rightarrow>
                    (case exercises_complete cv exs of
                       None \<Rightarrow> None
                     | Some ok \<Rightarrow> if ok then days_complete cv ds else Some False)
                | Str s \<Rightarrow> Some False
                | _ \<Rightarrow> None))"

definition isPlanComplete :: "(js \<Rightarrow> jsnum) \<Rightarrow> js list \<Rightarrow> bool option" where
  "isPlanComplete cv ds = (if length ds < 3 then Some False else days_complete cv ds)"

text \<open>
  The conversion of the stored days into the days of the plan that the handler returns
  (the \<^verbatim>\<open>days\<close> of its object literal \<^verbatim>\<open>plan\<close>), with the serving repair of the steps.
\<close>

definition serve_exercise :: "(js \<Rightarrow> jsnum) \<Rightarrow> nat \<Rightarrow> js \<Rightarrow> js option" where
  "serve_exercise cv i ex =
     (case get_prop ex ''id'' of
        None \<Rightarrow> None
      | Some ident \<Rightarrow>
          Some (Obj [(''id'', ident),
                     (''name'', get_opt ex ''name''),
                     (''sets'', get_opt ex ''sets''),
                     (''note'', js_or (get_opt ex ''note'') (Str ''Focus on proper form'')),
                     (''badge'', js_or (get_opt ex ''badge'') Null),
                     (''badgeColor'', js_or (get_opt ex ''badgeColor'') Null),
                     (''borderColor'', js_or (get_opt ex ''borderColor'') (Str ''#3A2A4A'')),
                     (''completed'', js_or (get_opt ex ''completed'') (Bool False)),
                     (''steps'',
                        if truthy (get_opt ex ''steps'') \<and> js_ge cv (js_length (get_opt ex ''steps'')) 2
                        then get_opt ex ''steps'' else Arr defaultSteps)]))"

definition serve_day :: "(js \<Rightarrow> jsnum) \<Rightarrow> nat \<Rightarrow> js \<Rightarrow> js option" where
  "serve_day cv i day =
     (case get_prop day ''day'' of
        None \<Rightarrow> None
      | Some d \<Rightarrow>
          (case as_array (js_or (get_opt day ''exercises'') (Arr [])) of
             None \<Rightarrow> None
           | Some exs \<Rightarrow>
               (case map_index (serve_exercise cv) 0 exs of
                  None \<Rightarrow> None
                | Some exercises \<Rightarrow>
                    Some (Obj [(''day'', d),
                               (''title'', get_opt day ''title''),
                               (''description'', js_or (get_opt day ''description'') (Str [])),
                               (''type'', js_or (get_opt day ''type'') (Str ''Strength'')),
                               (''typeColor'', js_or (get_opt day ''typeColor'') (Str ''#4A7CFF'')),
                               (''secondaryType'', js_or (get_opt day ''secondaryType'') Null),
                               (''status'', js_or (get_opt day ''status'') (Str ''upcoming'')),
                               (''duration'', js_or (get_opt day ''duration'') (Str ''45 min'')),
                               (''caloriesBurn'', js_or (get_opt day ''caloriesBurn'') (Num (Fin 300))),
                               (''targetMuscles'', js_or (get_opt day ''targetMuscles'') (Arr [])),
                               (''exercises'', Arr exercises),
                               (''completedAt'', get_opt day ''completedAt'')]))))"

definition served_days :: "(js \<Rightarrow> jsnum) \<Rightarrow> js list \<Rightarrow> js list option" where
  "served_days cv weeklyPlan = map_index (serve_day cv) 0 weeklyPlan"

section \<open>Plan state machine\<close>

text \<open>
  The documents of the store. A \<^verbatim>\<open>WorkoutPlan\<close> keeps its days and its history as
  schema-free arrays; the user's score is a number. Times are milliseconds.
\<close>

record workout_plan =
  currentWeek :: int
  weeklyPlan :: "js list"
  completedHistory :: "js list"
  wp_weekId :: string
  wp_mission :: js

record user_doc =
  user_mogScore :: jsnum
  totalWorkouts :: nat
  lastWorkoutDate :: "nat option"
  latestScan :: js
  weeklyTrainingPlan :: js

text \<open>
  The shared state of the process: the two collections, keyed by user id, and the map
  \<^verbatim>\<open>regeneratingPlans\<close> from user id to the time a regeneration started.
\<close>

record server_state =
  plans :: "string \<rightharpoonup> workout_plan"
  users :: "string \<rightharpoonup> user_doc"
  regeneratingPlans :: "string \<rightharpoonup> nat"

text \<open>
  The body of a complete-day request. The handler destructures \<^verbatim>\<open>req.body\<close> and uses
  the fields as they come, without validation: each is any value JSON can carry, and
  \<^verbatim>\<open>undefined\<close> when the body has no such field.
\<close>

record complete_day_request =
  dayNumber :: js
  targetMuscles :: js
  exerciseCount :: js

record complete_day_result =
  r_dayCompleted :: js
  r_mogPointsEarned :: jsnum
  r_newMogScore :: "jsnum option"
  r_totalWorkouts :: "nat option"
  r_allDaysCompleted :: bool
  r_newWeekGenerated :: bool
  r_currentWeek :: int

datatype response = Status404 string | Status500 string | Success complete_day_result

text \<open>
  \<^verbatim>\<open>a + b\<close> and \<^verbatim>\<open>a * b\<close> on numbers. A finite result is the exact sum or product: the
  rounding and the overflow of doubles are not modelled.
\<close>

fun num_plus :: "jsnum \<Rightarrow> jsnum \<Rightarrow> jsnum" where
  "num_plus NaN _ = NaN"
| "num_plus _ NaN = NaN"
| "num_plus (Fin a) (Fin b) = Fin (a + b)"
| "num_plus PosInf NegInf = NaN"
| "num_plus NegInf PosInf = NaN"
| "num_plus PosInf _ = PosInf"
| "num_plus _ PosInf = PosInf"
| "num_plus NegInf _ = NegInf"
| "num_plus _ NegInf = NegInf"

fun num_times :: "jsnum \<Rightarrow> jsnum \<Rightarrow> jsnum" where
  "num_times NaN _ = NaN"
| "num_times _ NaN = NaN"
| "num_times (Fin a) (Fin b) = Fin (a * b)"
| "num_times (Fin a) PosInf = (if a = 0 then NaN else if 0 < a then PosInf else NegInf)"
| "num_times (Fin a) NegInf = (if a = 0 then NaN else if 0 < a then NegInf else PosInf)"
| "num_times PosInf (Fin b) = (if b = 0 then NaN else if 0 < b then PosInf else NegInf)"
| "num_times NegInf (Fin b) = (if b = 0 then NaN else if 0 < b then NegInf else PosInf)"
| "num_times PosInf PosInf = PosInf"
| "num_times NegInf NegInf = PosInf"
| "num_times PosInf NegInf = NegInf"
| "num_times NegInf PosInf = NegInf"

text \<open>
  \<^verbatim>\<open>a === b\<close> for a value \<open>a\<close> of a stored document and a value \<open>b\<close> of the request:
  primitives are equal when they are the same value, NaN is equal to nothing, and an
  array or an object of the document is never the object the request carries.
\<close>

fun strict_eq :: "js \<Rightarrow> js \<Rightarrow> bool" where
  "strict_eq (Num a) (Num b) = (a \<noteq> NaN \<and> a = b)"
| "strict_eq (Arr xs) b = False"
| "strict_eq (Obj kvs) b = False"
| "strict_eq a b = (a = b)"

text \<open>
  \<^verbatim>\<open>v + 1\<close>: a number is added to, a string is appended to, an array or an object is
  converted to a string first, by the engine's \<^verbatim>\<open>toString\<close>, the parameter \<open>ts\<close>.
\<close>

fun plus_one :: "(js \<Rightarrow> string) \<Rightarrow> js \<Rightarrow> js" where
  "plus_one ts Undefined = Num NaN"
| "plus_one ts Null = Num (Fin 1)"
| "plus_one ts (Bool b) = Num (Fin (if b then 2 else 1))"
| "plus_one ts (Num n) = Num (num_plus n (Fin 1))"
| "plus_one ts (Str s) = Str (s @ ''1'')"
| "plus_one ts v = Str (ts v @ ''1'')"

text \<open>
  \<^verbatim>\<open>days.findIndex(d => d.day === n)\<close>; reading \<^verbatim>\<open>d.day\<close> of a day that is \<^verbatim>\<open>null\<close>
  throws. A day without the property has \<^verbatim>\<open>undefined\<close> there, which is what a request
  without \<^verbatim>\<open>dayNumber\<close> asks for.
\<close>

datatype find_result = Throws | Missing | At nat

fun findIndex_day :: "js \<Rightarrow> js list \<Rightarrow> nat \<Rightarrow> find_result" where
  "findIndex_day n [] i = Missing"
| "findIndex_day n (d # ds) i =
     (case get_prop d ''day'' of
        None \<Rightarrow> Throws
      | Some v \<Rightarrow> if strict_eq v n then At i else findIndex_day n ds (Suc i))"

text \<open>\<^verbatim>\<open>days.every(d => d.status === 'done')\<close>, which stops at the first day that is not done.\<close>

fun every_done :: "js list \<Rightarrow> bool option" where
  "every_done [] = Some True"
| "every_done (d # ds) =
     (case get_prop d ''status'' of
        None \<Rightarrow> None
      | Some s \<Rightarrow> if s = Str ''done'' then every_done ds else Some False)"

text \<open>
  Assigning a property of a day that is an object. The file is not in strict mode, so
  the assignment to a day that is a number, a string or a boolean does nothing.
  Properties given to a day that is an array are not stored with it, and are not
  modelled.
\<close>

definition set_field :: "string \<Rightarrow> js \<Rightarrow> js \<Rightarrow> js" where
  "set_field k v d = (case d of Obj kvs \<Rightarrow> Obj (set_prop k v kvs) | _ \<Rightarrow> d)"

text \<open>\<^verbatim>\<open>plan.currentWeek || 1\<close>.\<close>

definition week_or_1 :: "workout_plan \<Rightarrow> int" where
  "week_or_1 plan = (if currentWeek plan = 0 then 1 else currentWeek plan)"

text \<open>The day marked as completed: status, flag and time.\<close>

definition mark_done :: "nat \<Rightarrow> js \<Rightarrow> js" where
  "mark_done now d =
     set_field ''completedAt'' (Num (Fin (real now)))
       (set_field ''completed'' (Bool True) (set_field ''status'' (Str ''done'') d))"

text \<open>
  \<^verbatim>\<open>exercises.map(ex => ({...ex, completed: true}))\<close> when the day has exercises;
  \<open>None\<close>: the truthy value has no \<^verbatim>\<open>map\<close>.
\<close>

definition complete_exercises :: "js \<Rightarrow> js option" where
  "complete_exercises exercises =
     (if truthy exercises
      then (case as_array exercises of
              None \<Rightarrow> None
            | Some exs \<Rightarrow>
                Some (Arr (map (\<lambda>ex. Obj (set_prop ''completed'' (Bool True) (spread ex))) exs)))
      else Some exercises)"

text \<open>The assignment of the mapped exercises, made when the day has exercises.\<close>

definition with_exercises :: "js \<Rightarrow> js \<Rightarrow> js" where
  "with_exercises exercises day =
     (if truthy (get_opt day ''exercises'') then set_field ''exercises'' exercises day else day)"

text \<open>
  The day after the completed one, found by \<^verbatim>\<open>d.day === dayNumber + 1\<close>, becomes
  \<^verbatim>\<open>today\<close> if it is \<^verbatim>\<open>upcoming\<close>.
\<close>

definition advance_next_day :: "(js \<Rightarrow> string) \<Rightarrow> js \<Rightarrow> js list \<Rightarrow> js list" where
  "advance_next_day ts n days1 =
     (case findIndex_day (plus_one ts n) days1 0 of
        At nextDayIndex \<Rightarrow>
          if get_opt (days1 ! nextDayIndex) ''status'' = Str ''upcoming''
          then days1[nextDayIndex := set_field ''status'' (Str ''today'') (days1 ! nextDayIndex)]
          else days1
      | _ \<Rightarrow> days1)"

text \<open>\<^verbatim>\<open>exercises?.length || 3\<close> of the completed day, whose exercises are an array or falsy.\<close>

definition exercise_count_or_3 :: "js \<Rightarrow> nat" where
  "exercise_count_or_3 exercises =
     (case exercises of Arr exs \<Rightarrow> (if length exs = 0 then 3 else length exs) | _ \<Rightarrow> 3)"

text \<open>
  \<^verbatim>\<open>0.2 + actualExerciseCount * 0.15\<close>, where the count is the request's
  \<^verbatim>\<open>exerciseCount\<close> if that is truthy, whatever it is, and the day's own count otherwise.
  The product converts the count to a number.
\<close>

definition mog_points :: "(js \<Rightarrow> jsnum) \<Rightarrow> js \<Rightarrow> js \<Rightarrow> jsnum" where
  "mog_points cv requested exercises =
     num_plus (Fin 0.2)
       (num_times
          (to_number cv (js_or requested (Num (Fin (real (exercise_count_or_3 exercises))))))
          (Fin 0.15))"

definition history_entry :: "workout_plan \<Rightarrow> js \<Rightarrow> nat \<Rightarrow> js \<Rightarrow> js \<Rightarrow> js" where
  "history_entry plan n now d fallbackMuscles =
     Obj [(''weekNumber'', Num (Fin (of_int (week_or_1 plan)))),
          (''dayNumber'', n),
          (''completedAt'', Num (Fin (real now))),
          (''exercises'', get_opt d ''exercises''),
          (''targetMuscles'', js_or (js_or (get_opt d ''targetMuscles'') fallbackMuscles) (Arr []))]"

text \<open>The plan object of a generator as a value, to store it in the user document.\<close>

definition plan_object :: "generated_plan \<Rightarrow> js" where
  "plan_object p =
     Obj (set_prop ''days'' (Arr (days p))
           (set_prop ''expectedGain'' (expectedGain p)
             (set_prop ''mission'' (mission p)
               (set_prop ''weekId'' (Str (weekId p)) (provided p)))))"

text \<open>
  The user's score, workout count and date after a completed day:
  \<^verbatim>\<open>user.mogScore = (user.mogScore || 0) + mogPointsEarned\<close>. The document keeps the
  number assigned to it.
\<close>

definition score_or_0 :: "jsnum \<Rightarrow> jsnum" where
  "score_or_0 s = (if truthy (Num s) then s else Fin 0)"

definition reward_user :: "jsnum \<Rightarrow> nat \<Rightarrow> user_doc \<Rightarrow> user_doc" where
  "reward_user mogPointsEarned now user =
     user\<lparr>user_mogScore := num_plus (score_or_0 (user_mogScore user)) mogPointsEarned,
          totalWorkouts := totalWorkouts user + 1,
          lastWorkoutDate := Some now\<rparr>"

text \<open>
  \<^verbatim>\<open>POST /api/training/:userId/complete-day\<close>, in two parts. The first part runs from
  the request to the call of \<^verbatim>\<open>generateNextWeekPlan\<close>: it ends with a response, or
  suspended on that call with the request's copies of the plan and of the user. \<open>cold\<close>
  is what \<^verbatim>\<open>generateAITrainingPlan\<close> returns if the user has no plan yet (\<open>None\<close>: it
  throws). \<^verbatim>\<open>save\<close> stores the request's copy of a document. The first test is the
  log line that reads \<^verbatim>\<open>d.day\<close> and \<^verbatim>\<open>d.status\<close> of every day.
\<close>

record pending_rollover =
  p_plan :: workout_plan
  p_user :: "user_doc option"
  p_dayNumber :: js
  p_mogPointsEarned :: jsnum

datatype progress = Answered response server_state | AwaitingNextWeek pending_rollover server_state

definition complete_day_marked ::
  "(js \<Rightarrow> jsnum) \<Rightarrow> (js \<Rightarrow> string) \<Rightarrow> server_state \<Rightarrow> string \<Rightarrow> complete_day_request \<Rightarrow> nat
     \<Rightarrow> workout_plan \<Rightarrow> progress" where
  "complete_day_marked cv ts st userId req now plan =
     (if list_ex (\<lambda>d. get_prop d ''day'' = None) (weeklyPlan plan)
      then Answered (Status500 ''Failed to complete day'') st
      else
        (case findIndex_day (dayNumber req) (weeklyPlan plan) 0 of
           Throws \<Rightarrow> Answered (Status500 ''Failed to complete day'') st
         | Missing \<Rightarrow> Answered (Status404 ''Day not found in plan'') st
         | At dayIndex \<Rightarrow>
             (let days1 = (weeklyPlan plan)[dayIndex := mark_done now (weeklyPlan plan ! dayIndex)];
                  days2 = advance_next_day ts (dayNumber req) days1
              in (case complete_exercises (get_opt (days2 ! dayIndex) ''exercises'') of
                    None \<Rightarrow> Answered (Status500 ''Failed to complete day'') st
                  | Some exercises \<Rightarrow>
                      (let day = with_exercises exercises (days2 ! dayIndex);
                           days3 = days2[dayIndex := day];
                           plan' = plan\<lparr>weeklyPlan := days3,
                                         completedHistory := completedHistory plan @
                                           [history_entry plan (dayNumber req) now day (targetMuscles req)]\<rparr>;
                           st1 = st\<lparr>plans := (plans st)(userId \<mapsto> plan')\<rparr>;
                           mogPointsEarned =
                             mog_points cv (exerciseCount req) (get_opt day ''exercises'');
                           user = map_option (reward_user mogPointsEarned now) (users st1 userId);
                           st2 = (case user of
                                    None \<Rightarrow> st1
                                  | Some u \<Rightarrow> st1\<lparr>users := (users st1)(userId \<mapsto> u)\<rparr>)
                       in (case every_done days3 of
                             None \<Rightarrow> Answered (Status500 ''Failed to complete day'') st2
                           | Some allDaysCompleted \<Rightarrow>
                               if allDaysCompleted
                               then AwaitingNextWeek
                                      \<lparr>p_plan = plan', p_user = user, p_dayNumber = dayNumber req,
                                       p_mogPointsEarned = mogPointsEarned\<rparr> st2
                               else Answered
                                      (Success
                                        \<lparr>r_dayCompleted = dayNumber req,
                                         r_mogPointsEarned = mogPointsEarned,
                                         r_newMogScore = map_option user_mogScore user,
                                         r_totalWorkouts = map_option totalWorkouts user,
                                         r_allDaysCompleted = False,
                                         r_newWeekGenerated = False,
                                         r_currentWeek = week_or_1 plan'\<rparr>) st2))))))"

definition complete_day_begin ::
  "(js \<Rightarrow> jsnum) \<Rightarrow> (js \<Rightarrow> string) \<Rightarrow> server_state \<Rightarrow> string \<Rightarrow> complete_day_request \<Rightarrow> nat
     \<Rightarrow> generated_plan option \<Rightarrow> progress" where
  "complete_day_begin cv ts st userId req now cold =
     (case plans st userId of
        Some plan \<Rightarrow> complete_day_marked cv ts st userId req now plan
      | None \<Rightarrow>
          (case users st userId of
             None \<Rightarrow>
               Answered (Status404 ''No workout plan found - please complete a scan first'') st
           | Some user \<Rightarrow>
               if \<not> truthy (latestScan user)
               then Answered (Status404 ''No workout plan found - please complete a scan first'') st
               else (case cold of
                       None \<Rightarrow> Answered (Status500 ''Failed to generate workout plan'') st
                     | Some newPlan \<Rightarrow>
                         (let plan = \<lparr>currentWeek = 1, weeklyPlan = days newPlan,
                                      completedHistory = [], wp_weekId = weekId newPlan,
                                      wp_mission = mission newPlan\<rparr>;
                              st' = st\<lparr>plans := (plans st)(userId \<mapsto> plan),
                                       users := (users st)(userId \<mapsto>
                                         user\<lparr>weeklyTrainingPlan := plan_object newPlan\<rparr>)\<rparr>
                          in complete_day_marked cv ts st' userId req now plan))))"

text \<open>
  The second part: from the value of \<^verbatim>\<open>await generateNextWeekPlan(user, plan)\<close>
  (\<open>None\<close>: it throws) to the response. The rollover writes the week, the days and the
  week id of the plan, and the user's \<^verbatim>\<open>weeklyTrainingPlan\<close>.
\<close>

definition complete_day_finish ::
  "server_state \<Rightarrow> string \<Rightarrow> pending_rollover \<Rightarrow> nat \<Rightarrow> js list option \<Rightarrow> response \<times> server_state" where
  "complete_day_finish st userId p now nextWeekResult =
     (let plan = p_plan p;
          answer = (\<lambda>generated week.
            Success \<lparr>r_dayCompleted = p_dayNumber p,
                     r_mogPointsEarned = p_mogPointsEarned p,
                     r_newMogScore = map_option user_mogScore (p_user p),
                     r_totalWorkouts = map_option totalWorkouts (p_user p),
                     r_allDaysCompleted = True,
                     r_newWeekGenerated = generated,
                     r_currentWeek = week\<rparr>)
      in (case nextWeekResult of
            None \<Rightarrow> (answer False (week_or_1 plan), st)
          | Some nextWeek \<Rightarrow>
              if length nextWeek > 0
              then (let newWeekNumber = week_or_1 plan + 1;
                        newWeekId = ''week-'' @ show_int newWeekNumber @ ''-'' @ show_nat now;
                        stored = (case plans st userId of None \<Rightarrow> plan | Some d \<Rightarrow> d);
                        st1 = st\<lparr>plans := (plans st)(userId \<mapsto>
                                 stored\<lparr>currentWeek := newWeekNumber, weeklyPlan := nextWeek,
                                        wp_weekId := newWeekId\<rparr>)\<rparr>;
                        st2 = (case p_user p of
                                 None \<Rightarrow> st1
                               | Some u \<Rightarrow>
                                   (let storedUser = (case users st1 userId of None \<Rightarrow> u | Some d \<Rightarrow> d)
                                    in st1\<lparr>users := (users st1)(userId \<mapsto>
                                         storedUser\<lparr>weeklyTrainingPlan :=
                                           Obj [(''weekId'', Str newWeekId),
                                                (''weekNumber'', Num (Fin (of_int newWeekNumber))),
                                                (''mission'', js_or (wp_mission plan)
                                                   (Str (''Week '' @ show_int newWeekNumber @
                                                         '' - Continue your transformation''))),
                                                (''days'', Arr nextWeek),
                                                (''currentWeek'', Num (Fin (of_int newWeekNumber)))]\<rparr>)\<rparr>))
                    in (answer True newWeekNumber, st2))
              else (answer False (week_or_1 plan), st)))"

text \<open>The handler: both parts, with nothing in between.\<close>

definition complete_day ::
  "(js \<Rightarrow> jsnum) \<Rightarrow> (js \<Rightarrow> string) \<Rightarrow> server_state \<Rightarrow> string \<Rightarrow> complete_day_request \<Rightarrow> nat
     \<Rightarrow> generated_plan option \<Rightarrow> js list option \<Rightarrow> response \<times> server_state" where
  "complete_day cv ts st userId req now cold nextWeekResult =
     (case complete_day_begin cv ts st userId req now cold of
        Answered r st' \<Rightarrow> (r, st')
      | AwaitingNextWeek p st' \<Rightarrow> complete_day_finish st' userId p now nextWeekResult)"

text \<open>
  \<^verbatim>\<open>POST /api/training/complete-day\<close>, the legacy endpoint, with the user id and the
  \<^verbatim>\<open>dayNumber\<close> \<open>n\<close> in the body. It differs from the handler above: a missing plan is
  not generated, the days are not logged, the next day is not advanced, the count of
  exercises is the day's own, and the rollover tests \<^verbatim>\<open>if (nextWeek)\<close>, which every
  array passes.
\<close>

definition complete_day_legacy ::
  "server_state \<Rightarrow> string \<Rightarrow> js \<Rightarrow> nat \<Rightarrow> js list option \<Rightarrow> response \<times> server_state" where
  "complete_day_legacy st userId n now nextWeekResult =
     (case plans st userId of
        None \<Rightarrow> (Status404 ''No workout plan found'', st)
      | Some plan \<Rightarrow>
          (case findIndex_day n (weeklyPlan plan) 0 of
             Throws \<Rightarrow> (Status500 ''Failed to complete day'', st)
           | Missing \<Rightarrow> (Status404 ''Day not found in plan'', st)
           | At dayIndex \<Rightarrow>
               (let days1 = (weeklyPlan plan)[dayIndex := mark_done now (weeklyPlan plan ! dayIndex)]
                in (case complete_exercises (get_opt (days1 ! dayIndex) ''exercises'') of
                      None \<Rightarrow> (Status500 ''Failed to complete day'', st)
                    | Some exercises \<Rightarrow>
                        (let day = with_exercises exercises (days1 ! dayIndex);
                             days2 = days1[dayIndex := day];
                             plan' = plan\<lparr>weeklyPlan := days2,
                                           completedHistory := completedHistory plan @
                                             [history_entry plan n now day (Arr [])]\<rparr>;
                             st1 = st\<lparr>plans := (plans st)(userId \<mapsto> plan')\<rparr>;
                             mogPointsEarned =
                               num_plus (Fin 0.2)
                                 (num_times
                                    (Fin (real (exercise_count_or_3 (get_opt day ''exercises''))))
                                    (Fin 0.15));
                             user = map_option (reward_user mogPointsEarned now) (users st1 userId);
                             st2 = (case user of
                                      None \<Rightarrow> st1
                                    | Some u \<Rightarrow> st1\<lparr>users := (users st1)(userId \<mapsto> u)\<rparr>);
                             answer = (\<lambda>allDone generated week.
                               Success \<lparr>r_dayCompleted = n,
                                        r_mogPointsEarned = mogPointsEarned,
                                        r_newMogScore = map_option user_mogScore user,
                                        r_totalWorkouts = map_option totalWorkouts user,
                                        r_allDaysCompleted = allDone,
                                        r_newWeekGenerated = generated,
                                        r_currentWeek = week\<rparr>)
                         in (case every_done days2 of
                               None \<Rightarrow> (Status500 ''Failed to complete day'', st2)
                             | Some allDaysCompleted \<Rightarrow>
                                 if \<not> allDaysCompleted then (answer False False (week_or_1 plan'), st2)
                                 else
                                   (case nextWeekResult of
                                      None \<Rightarrow> (answer True False (week_or_1 plan'), st2)
                                    | Some nextWeek \<Rightarrow>
                                        (let week = week_or_1 plan' + 1;
                                             newWeekId = ''week-'' @ show_int week @ ''-'' @ show_nat now;
                                             plan'' = plan'\<lparr>currentWeek := week, weeklyPlan := nextWeek,
                                                            wp_weekId := newWeekId\<rparr>;
                                             st3 = st2\<lparr>plans := (plans st2)(userId \<mapsto> plan'')\<rparr>;
                                             st4 = (case user of
                                                      None \<Rightarrow> st3
                                                    | Some u \<Rightarrow>
                                                        st3\<lparr>users := (users st3)(userId \<mapsto>
                                                          u\<lparr>weeklyTrainingPlan :=
                                                            Obj [(''weekId'', Str newWeekId),
                                                                 (''mission'', js_or (wp_mission plan'')
                                                                    (Str ''Continue your transformation'')),
                                                                 (''days'', Arr nextWeek),
                                                                 (''currentWeek'', Num (Fin (of_int week)))]\<rparr>)\<rparr>)
                                         in (answer True True (if week = 0 then 1 else week), st4)))))))))"

section \<open>Background asset queue\<close>

text \<open>
  The cache key of an exercise name, \<^verbatim>\<open>exerciseName.toLowerCase().trim()\<close>, on ASCII
  letters and ASCII white space.
\<close>

definition to_lower_char :: "char \<Rightarrow> char" where
  "to_lower_char c =
     (if 65 \<le> (of_char c :: nat) \<and> (of_char c :: nat) \<le> 90 then char_of ((of_char c :: nat) + 32) else c)"

definition is_space :: "char \<Rightarrow> bool" where
  "is_space c = ((of_char c :: nat) = 32 \<or> (9 \<le> (of_char c :: nat) \<and> (of_char c :: nat) \<le> 13))"

definition trim :: "string \<Rightarrow> string" where
  "trim s = rev (dropWhile is_space (rev (dropWhile is_space s)))"

definition cache_key :: "string \<Rightarrow> string" where
  "cache_key exerciseName = trim (map to_lower_char exerciseName)"

record image =
  img_id :: string
  url :: string
  phase :: string

text \<open>
  Time is explicit, in milliseconds. A call to the image provider takes \<open>latency\<close> and
  returns a URL, returns a body without one, or throws. \<^verbatim>\<open>setTimeout\<close> fires no
  earlier than asked: the timer set as the \<open>k\<close>-th fires \<open>lag k\<close> late. Each call is
  logged with the normalized exercise name, its phase, and when it was issued and ended.
\<close>

datatype image_reply = ImageUrl string | NoUrl | FetchThrows

record provider_outcome =
  latency :: nat
  returned :: image_reply

record provider_call =
  exercise :: string
  call_phase :: string
  issued :: nat
  ended :: nat

record asset_state =
  aiImageCache :: "string \<rightharpoonup> image list"
  backgroundImageQueue :: "(string \<times> string) list"
  isProcessingBackgroundQueue :: bool
  clock :: nat
  timers :: nat
  calls :: "provider_call list"

definition sleep :: "(nat \<Rightarrow> nat) \<Rightarrow> nat \<Rightarrow> asset_state \<Rightarrow> asset_state" where
  "sleep lag ms st = st\<lparr>clock := clock st + ms + lag (timers st), timers := Suc (timers st)\<rparr>"

text \<open>One call of the provider for a phase of an exercise: the \<open>k\<close>-th call gets \<open>provider k\<close>.\<close>

definition call_provider ::
  "(nat \<Rightarrow> provider_outcome) \<Rightarrow> string \<Rightarrow> string \<Rightarrow> asset_state \<Rightarrow> image_reply \<times> asset_state" where
  "call_provider provider exerciseName ph st =
     (let outcome = provider (length (calls st))
      in (returned outcome,
          st\<lparr>calls := calls st @
                 [\<lparr>exercise = cache_key exerciseName, call_phase = ph, issued = clock st,
                   ended = clock st + latency outcome\<rparr>],
              clock := clock st + latency outcome\<rparr>))"

text \<open>
  The loop over the phases in \<^verbatim>\<open>generateAIImagesForExercise\<close>: a call without a URL or
  a throw ends the run with \<^verbatim>\<open>null\<close>; after a successful call that is not the last,
  20 seconds are waited.
\<close>

fun generate_phases ::
  "(nat \<Rightarrow> provider_outcome) \<Rightarrow> (nat \<Rightarrow> nat) \<Rightarrow> string \<Rightarrow> string \<Rightarrow> string list \<Rightarrow> nat \<Rightarrow> image list
     \<Rightarrow> asset_state \<Rightarrow> image list option \<times> asset_state" where
  "generate_phases provider lag exerciseName exerciseId [] i images st = (Some images, st)"
| "generate_phases provider lag exerciseName exerciseId (ph # phs) i images st =
     (case call_provider provider exerciseName ph st of
        (ImageUrl u, st1) \<Rightarrow>
          generate_phases provider lag exerciseName exerciseId phs (Suc i)
            (images @ [\<lparr>img_id = exerciseId @ ''-'' @ show_nat (i + 1), url = u, phase = ph\<rparr>])
            (if phs \<noteq> [] then sleep lag 20000 st1 else st1)
      | (NoUrl, st1) \<Rightarrow> (None, st1)
      | (FetchThrows, st1) \<Rightarrow> (None, st1))"

definition phases :: "string list" where
  "phases = [''start'', ''middle'', ''end'']"

text \<open>\<open>api\<close>: \<^verbatim>\<open>OPENAI_API_KEY\<close> is set.\<close>

definition generateAIImagesForExercise ::
  "(nat \<Rightarrow> provider_outcome) \<Rightarrow> (nat \<Rightarrow> nat) \<Rightarrow> bool \<Rightarrow> string \<Rightarrow> string \<Rightarrow> asset_state
     \<Rightarrow> image list option \<times> asset_state" where
  "generateAIImagesForExercise provider lag api exerciseName exerciseId st =
     (if \<not> api then (None, st)
      else (case aiImageCache st (cache_key exerciseName) of
              Some cached \<Rightarrow> (Some cached, st)
            | None \<Rightarrow>
                (case generate_phases provider lag exerciseName exerciseId phases 0 [] st of
                   (Some images, st') \<Rightarrow>
                     if length images = 3
                     then (Some images,
                           st'\<lparr>aiImageCache := (aiImageCache st')(cache_key exerciseName \<mapsto> images)\<rparr>)
                     else (None, st')
                 | (None, st') \<Rightarrow> (None, st'))))"

text \<open>
  The \<^verbatim>\<open>while\<close> loop of \<^verbatim>\<open>processBackgroundQueue\<close>, run until the queue is empty with
  no request arriving meanwhile: the argument is the queue, whose head is shifted off.
\<close>

fun drain_queue ::
  "(nat \<Rightarrow> provider_outcome) \<Rightarrow> (nat \<Rightarrow> nat) \<Rightarrow> bool \<Rightarrow> (string \<times> string) list \<Rightarrow> asset_state
     \<Rightarrow> asset_state" where
  "drain_queue provider lag api [] st = st"
| "drain_queue provider lag api ((exerciseName, exerciseId) # rest) st =
     (let st0 = st\<lparr>backgroundImageQueue := rest\<rparr>
      in if aiImageCache st0 (cache_key exerciseName) \<noteq> None
         then drain_queue provider lag api rest st0
         else (let st1 = snd (generateAIImagesForExercise provider lag api exerciseName exerciseId st0)
               in drain_queue provider lag api rest
                    (if rest \<noteq> [] then sleep lag 30000 st1 else st1)))"

definition processBackgroundQueue ::
  "(nat \<Rightarrow> provider_outcome) \<Rightarrow> (nat \<Rightarrow> nat) \<Rightarrow> bool \<Rightarrow> asset_state \<Rightarrow> asset_state" where
  "processBackgroundQueue provider lag api st =
     (if isProcessingBackgroundQueue st \<or> backgroundImageQueue st = [] then st
      else (drain_queue provider lag api (backgroundImageQueue st)
              (st\<lparr>isProcessingBackgroundQueue := True\<rparr>))\<lparr>isProcessingBackgroundQueue := False\<rparr>)"

text \<open>
  \<^verbatim>\<open>POST /api/workout/generate-exercise-image\<close> for a request that arrives at \<open>now\<close>.
  The consumer it starts runs in the background; here it runs to its end before the next
  request is looked at. The stock images of the answer are not modelled.
\<close>

datatype image_response = BadRequest | CachedImages "image list" | StockImages

definition generate_exercise_image ::
  "(nat \<Rightarrow> provider_outcome) \<Rightarrow> (nat \<Rightarrow> nat) \<Rightarrow> bool \<Rightarrow> asset_state \<Rightarrow> string \<Rightarrow> string \<Rightarrow> nat
     \<Rightarrow> image_response \<times> asset_state" where
  "generate_exercise_image provider lag api st exerciseName exerciseId now =
     (if exerciseName = [] then (BadRequest, st)
      else (case aiImageCache st (cache_key exerciseName) of
              Some cached \<Rightarrow> (CachedImages cached, st)
            | None \<Rightarrow>
                if api \<and> \<not> list_ex (\<lambda>q. cache_key (fst q) = cache_key exerciseName) (backgroundImageQueue st)
                then (StockImages,
                      processBackgroundQueue provider lag api
                        (st\<lparr>backgroundImageQueue := backgroundImageQueue st @ [(exerciseName, exerciseId)],
                            clock := max (clock st) now\<rparr>))
                else (StockImages, st)))"

text \<open>
  \<^verbatim>\<open>generateExerciseImagesForBackground\<close> of the background job: every phase is tried;
  the 15 seconds are waited inside the \<^verbatim>\<open>try\<close>, so a throw skips them.
\<close>

fun background_phases ::
  "(nat \<Rightarrow> provider_outcome) \<Rightarrow> (nat \<Rightarrow> nat) \<Rightarrow> string \<Rightarrow> string \<Rightarrow> string list \<Rightarrow> nat \<Rightarrow> image list
     \<Rightarrow> asset_state \<Rightarrow> image list \<times> asset_state" where
  "background_phases provider lag exerciseId exerciseName [] i images st = (images, st)"
| "background_phases provider lag exerciseId exerciseName (ph # phs) i images st =
     (case call_provider provider exerciseName ph st of
        (ImageUrl u, st1) \<Rightarrow>
          background_phases provider lag exerciseId exerciseName phs (Suc i)
            (images @ [\<lparr>img_id = exerciseId @ ''-'' @ show_nat (i + 1), url = u, phase = ph\<rparr>])
            (if phs \<noteq> [] then sleep lag 15000 st1 else st1)
      | (NoUrl, st1) \<Rightarrow>
          background_phases provider lag exerciseId exerciseName phs (Suc i) images
            (if phs \<noteq> [] then sleep lag 15000 st1 else st1)
      | (FetchThrows, st1) \<Rightarrow>
          background_phases provider lag exerciseId exerciseName phs (Suc i) images st1)"

definition generateExerciseImagesForBackground ::
  "(nat \<Rightarrow> provider_outcome) \<Rightarrow> (nat \<Rightarrow> nat) \<Rightarrow> bool \<Rightarrow> string \<Rightarrow> string \<Rightarrow> asset_state
     \<Rightarrow> image list option \<times> asset_state" where
  "generateExerciseImagesForBackground provider lag api exerciseId exerciseName st =
     (if \<not> api then (None, st)
      else (case background_phases provider lag exerciseId exerciseName phases 0 [] st of
              (images, st') \<Rightarrow> (Some images, st')))"

text \<open>
  Calls in the order they were issued are spaced by \<open>d\<close>: each is issued at least \<open>d\<close>
  after the end of the one before.
\<close>

fun spaced :: "nat \<Rightarrow> provider_call list \<Rightarrow> bool" where
  "spaced d (c1 # c2 # cs) = (ended c1 + d \<le> issued c2 \<and> spaced d (c2 # cs))"
| "spaced d _ = True"

text \<open>
  The band of a table entry: the scores at or above its threshold and below every higher
  threshold of the table.
\<close>

definition in_band :: "tier_entry \<Rightarrow> real \<Rightarrow> bool" where
  "in_band t x =
     (minScore t \<le> x \<and> list_all (\<lambda>u. minScore t < minScore u \<longrightarrow> x < minScore u) TIERS)"

text \<open>Provider payloads and requests used to run the definitions.\<close>

definition out_of_range_payload :: js where
  "out_of_range_payload =
     Obj [(''isValidPhysique'', Bool True),
          (''mogScore'', Num (Fin 80)),
          (''muscleBreakdown'', Obj [(''chest'', Num (Fin 150)), (''legs'', Null)]),
          (''symmetry'', Num (Fin 250))]"

definition suggested_tier_payload :: "(string \<times> js) list" where
  "suggested_tier_payload = [(''tier'', Str ''Mogger''), (''mogScore'', Num (Fin 40))]"

definition zero_score_payload :: js where
  "zero_score_payload = Obj [(''isValidPhysique'', Bool True), (''mogScore'', Num (Fin 0))]"

definition verdictless_reply :: provider_reply where
  "verdictless_reply =
     Reply (Obj [(''confidence'', Num (Fin 90)), (''reason'', Str ''same build and tattoos'')])"

definition plan_invariant :: "generated_plan \<Rightarrow> bool" where
  "plan_invariant p = exercise_invariant (days p)"

text \<open>A fallback completion whose only exercise has one step.\<close>

definition one_step_reply :: completion where
  "one_step_reply =
     Parsed [(''mission'', Str ''Legs''),
             (''days'', Arr [Obj [(''title'', Str ''Leg day''),
                                  (''exercises'', Arr [Obj [(''name'', Str ''Squat''),
                                     (''steps'', Arr [Obj [(''title'', Str ''Set 1'')]])]])]])]"

text \<open>A stored week of three days whose exercises have two steps each.\<close>

definition two_step_day :: "real \<Rightarrow> js" where
  "two_step_day n =
     Obj [(''day'', Num (Fin n)), (''status'', Str ''upcoming''),
          (''exercises'', Arr [Obj [(''id'', Str ''ex-1''), (''name'', Str ''Squat''),
             (''steps'', Arr [Obj [(''title'', Str ''Set 1'')], Obj [(''title'', Str ''Set 2'')]])]])]"

definition two_step_week :: "js list" where
  "two_step_week = [two_step_day 1, two_step_day 2, two_step_day 3]"

text \<open>
  A stored week of three days, the first two done and the third \<open>s\<close>, for user
  \<^verbatim>\<open>u1\<close>, whose regeneration marker was set at time 900; and the request to complete
  day 3.
\<close>

definition sample_day :: "real \<Rightarrow> string \<Rightarrow> js" where
  "sample_day n s =
     Obj [(''day'', Num (Fin n)), (''status'', Str s),
          (''exercises'', Arr [Obj [(''name'', Str ''Squat'')]])]"

definition sample_plan :: "string \<Rightarrow> string \<Rightarrow> workout_plan" where
  "sample_plan s2 s3 =
     \<lparr>currentWeek = 1,
      weeklyPlan = [sample_day 1 ''done'', sample_day 2 s2, sample_day 3 s3],
      completedHistory = [], wp_weekId = ''week-1'', wp_mission = Str ''Legs''\<rparr>"

definition sample_user :: user_doc where
  "sample_user =
     \<lparr>user_mogScore = Fin 50, totalWorkouts = 2, lastWorkoutDate = None, latestScan = Undefined,
      weeklyTrainingPlan = Undefined\<rparr>"

definition sample_state :: "string \<Rightarrow> string \<Rightarrow> server_state" where
  "sample_state s2 s3 =
     \<lparr>plans = [''u1'' \<mapsto> sample_plan s2 s3], users = [''u1'' \<mapsto> sample_user],
      regeneratingPlans = [''u1'' \<mapsto> 900]\<rparr>"

definition day3_request :: complete_day_request where
  "day3_request =
     \<lparr>dayNumber = Num (Fin 3), targetMuscles = Undefined, exerciseCount = Undefined\<rparr>"

text \<open>The same request with an \<^verbatim>\<open>exerciseCount\<close> of -2 in its body.\<close>

definition negative_count_request :: complete_day_request where
  "negative_count_request =
     \<lparr>dayNumber = Num (Fin 3), targetMuscles = Undefined, exerciseCount = Num (Fin (- 2))\<rparr>"

text \<open>
  An engine's \<^verbatim>\<open>toString\<close> to run the definitions with; no request below has an array
  or an object as its \<^verbatim>\<open>dayNumber\<close>.
\<close>

definition no_rendering :: "js \<Rightarrow> string" where
  "no_rendering v = []"

text \<open>
  A completion of the progressive mode that parses but has no \<^verbatim>\<open>days\<close>:
  \<^verbatim>\<open>generateNextWeekPlan\<close> returns the empty array for it.
\<close>

definition dayless_reply :: completion where
  "dayless_reply = Parsed [(''mission'', Str ''Week 2 - Push harder'')]"

text \<open>
  A stored week whose third day has a string for its \<^verbatim>\<open>exercises\<close>, and a request for a
  day 9 that no sample plan has.
\<close>

definition text_exercises_state :: server_state where
  "text_exercises_state =
     \<lparr>plans = [''u1'' \<mapsto>
        \<lparr>currentWeek = 1,
         weeklyPlan = [sample_day 1 ''done'', sample_day 2 ''done'',
                       Obj [(''day'', Num (Fin 3)), (''status'', Str ''today''),
                            (''exercises'', Str ''Squat'')]],
         completedHistory = [], wp_weekId = ''week-1'', wp_mission = Str ''Legs''\<rparr>],
      users = [''u1'' \<mapsto> sample_user],
      regeneratingPlans = [''u1'' \<mapsto> 900]\<rparr>"


text \<open>
  Two complete-day requests with the same body for the same user that overlap: the first
  runs up to its call of \<^verbatim>\<open>generateNextWeekPlan\<close>, then the second does, then the call
  of the first returns and the first finishes, then the second. The result is both
  responses and the user's documents and regeneration marker at the end, or \<open>None\<close> if
  a request is answered before it calls the generator.
\<close>

record overlap_result =
  first_response :: response
  second_response :: response
  final_plan :: "workout_plan option"
  final_user :: "user_doc option"
  final_marker :: "nat option"

definition overlapping_completions ::
  "(js \<Rightarrow> jsnum) \<Rightarrow> (js \<Rightarrow> string) \<Rightarrow> server_state \<Rightarrow> string \<Rightarrow> complete_day_request \<Rightarrow> nat \<Rightarrow> nat
     \<Rightarrow> js list option \<Rightarrow> js list option \<Rightarrow> overlap_result option" where
  "overlapping_completions cv ts st userId req t1 t2 resultA resultB =
     (case complete_day_begin cv ts st userId req t1 None of
        Answered r st1 \<Rightarrow> None
      | AwaitingNextWeek pA st1 \<Rightarrow>
          (case complete_day_begin cv ts st1 userId req t2 None of
             Answered r st2 \<Rightarrow> None
           | AwaitingNextWeek pB st2 \<Rightarrow>
               (case complete_day_finish st2 userId pA t1 resultA of
                  (rA, st3) \<Rightarrow>
                    (case complete_day_finish st3 userId pB t2 resultB of
                       (rB, st4) \<Rightarrow>
                         Some \<lparr>first_response = rA, second_response = rB,
                               final_plan = plans st4 userId, final_user = users st4 userId,
                               final_marker = regeneratingPlans st4 userId\<rparr>))))"

definition next_week :: "string \<Rightarrow> js list" where
  "next_week title =
     [Obj [(''day'', Num (Fin 1)), (''title'', Str title), (''status'', Str ''today'')]]"

text \<open>
  Bookkeeping for the calls logged from position \<open>n\<close> on. \<open>settled\<close>: they are spaced
  by \<open>d\<close> and none ends after the clock. \<open>rested\<close>: moreover \<open>d\<close> has passed since
  each of them ended, so that a call may be issued now.
\<close>

definition settled :: "nat \<Rightarrow> nat \<Rightarrow> asset_state \<Rightarrow> bool" where
  "settled d n st =
     (n \<le> length (calls st) \<and> spaced d (drop n (calls st))
      \<and> list_all (\<lambda>c. ended c \<le> clock st) (drop n (calls st)))"

definition rested :: "nat \<Rightarrow> nat \<Rightarrow> asset_state \<Rightarrow> bool" where
  "rested d n st =
     (settled d n st \<and> list_all (\<lambda>c. ended c + d \<le> clock st) (drop n (calls st)))"

text \<open>
  Providers that answer after 5 ms, without a URL, with a throw, or with a URL; timers that fire
  on time; the state of a server that has just started, and one with \<^verbatim>\<open>squat\<close> cached.
\<close>

definition failing_provider :: "nat \<Rightarrow> provider_outcome" where
  "failing_provider k = \<lparr>latency = 5, returned = NoUrl\<rparr>"

definition throwing_provider :: "nat \<Rightarrow> provider_outcome" where
  "throwing_provider k = \<lparr>latency = 5, returned = FetchThrows\<rparr>"

definition prompt_timers :: "nat \<Rightarrow> nat" where
  "prompt_timers k = 0"

definition empty_assets :: asset_state where
  "empty_assets =
     \<lparr>aiImageCache = Map.empty, backgroundImageQueue = [], isProcessingBackgroundQueue = False,
      clock = 0, timers = 0, calls = []\<rparr>"

definition working_provider :: "nat \<Rightarrow> provider_outcome" where
  "working_provider k = \<lparr>latency = 5, returned = ImageUrl ''https://img''\<rparr>"

definition squat_images :: "image list" where
  "squat_images =
     [\<lparr>img_id = ''ex-1-1'', url = ''https://img'', phase = ''start''\<rparr>,
      \<lparr>img_id = ''ex-1-2'', url = ''https://img'', phase = ''middle''\<rparr>,
      \<lparr>img_id = ''ex-1-3'', url = ''https://img'', phase = ''end''\<rparr>]"

definition cached_assets :: asset_state where
  "cached_assets = empty_assets\<lparr>aiImageCache := [''squat'' \<mapsto> squat_images]\<rparr>"

section \<open>Properties of the tier system\<close>

lemma getTier_Fin:
  "getTierFromScore cv (Num (Fin x)) =
     (if 97 \<le> x then ''Final Boss Mogger''
      else if 93 \<le> x then ''Mogger''
      else if 88 \<le> x then ''Gigachad''
      else if 78 \<le> x then ''Chad''
      else if 68 \<le> x then ''Chadlite''
      else if 55 \<le> x then ''High-Tier Normie''
      else if 45 \<le> x then ''Normie''
      else if 35 \<le> x then ''Low-Tier Normie''
      else ''Gym Bro'')"
  by (simp add: getTierFromScore_def TIERS_def)


lemma rank_getTier:
  "tier_rank (getTierFromScore cv (Num (Fin x))) =
     (if 97 \<le> x then 8 else if 93 \<le> x then 7 else if 88 \<le> x then 6 else if 78 \<le> x then 5
      else if 68 \<le> x then 4 else if 55 \<le> x then 3 else if 45 \<le> x then 2
      else if 35 \<le> x then 1 else 0)"
  by (simp add: getTier_Fin tier_rank_def TIERS_def)

lemma getTier_mono:
  "a \<le> b \<Longrightarrow>
   tier_rank (getTierFromScore cv (Num (Fin a))) \<le> tier_rank (getTierFromScore cv (Num (Fin b)))"
  unfolding rank_getTier by (simp split: if_splits)

lemma band_unique:
  assumes "t \<in> set TIERS" "u \<in> set TIERS" "in_band t x" "in_band u x"
  shows "t = u"
proof -
  have le: "\<not> minScore t < minScore u" "\<not> minScore u < minScore t"
    using assms by (auto simp: in_band_def list_all_iff)
  have "inj_on minScore (set TIERS)"
    by (rule distinct_map[THEN iffD1, THEN conjunct2]) (simp add: TIERS_def)
  with le assms(1,2) show ?thesis by (auto dest: inj_onD)
qed

lemma band_exists:
  assumes "0 \<le> x"
  shows "\<exists>t\<in>set TIERS. in_band t x \<and> getTierFromScore cv (Num (Fin x)) = name t"
  using assms by (simp add: getTier_Fin in_band_def TIERS_def)

text \<open>
  Claim C5. \<^verbatim>\<open>getTierFromScore\<close> is monotone on \<open>[0,100]\<close> (a lower score never gets a
  higher tier); the thresholds partition \<open>[0,100]\<close> without gaps: every score lies in the
  band of exactly one table entry and gets that entry's label, and the lowest entry has
  \<open>minScore 0\<close>; and 82 is ``Chad'', 40 and 35 are ``Low-Tier Normie'', 34 is ``Gym Bro''.
\<close>

theorem getTierFromScore_monotone_partition:
  "(\<forall>a b. 0 \<le> a \<and> a < b \<and> b \<le> 100 \<longrightarrow>
       tier_rank (getTierFromScore cv (Num (Fin a))) \<le> tier_rank (getTierFromScore cv (Num (Fin b))))
   \<and> (\<forall>x. 0 \<le> x \<and> x \<le> 100 \<longrightarrow>
         (\<exists>!t. t \<in> set TIERS \<and> in_band t x) \<and>
         (\<forall>t. t \<in> set TIERS \<and> in_band t x \<longrightarrow> getTierFromScore cv (Num (Fin x)) = name t))
   \<and> minScore (last TIERS) = 0
   \<and> getTierFromScore cv (Num (Fin 82)) = ''Chad''
   \<and> getTierFromScore cv (Num (Fin 40)) = ''Low-Tier Normie''
   \<and> getTierFromScore cv (Num (Fin 35)) = ''Low-Tier Normie''
   \<and> getTierFromScore cv (Num (Fin 34)) = ''Gym Bro''"
proof (intro conjI allI impI)
  fix a b :: real
  assume "0 \<le> a \<and> a < b \<and> b \<le> 100"
  then show "tier_rank (getTierFromScore cv (Num (Fin a)))
      \<le> tier_rank (getTierFromScore cv (Num (Fin b)))"
    by (simp add: getTier_mono)
next
  fix x :: real
  assume x: "0 \<le> x \<and> x \<le> 100"
  then obtain t where t: "t \<in> set TIERS" "in_band t x"
    using band_exists[of x cv] by blast
  then show "\<exists>!t. t \<in> set TIERS \<and> in_band t x"
    using band_unique by blast
next
  fix x :: real and t
  assume x: "0 \<le> x \<and> x \<le> 100" and t: "t \<in> set TIERS \<and> in_band t x"
  from x obtain u where u: "u \<in> set TIERS" "in_band u x"
      "getTierFromScore cv (Num (Fin x)) = name u"
    using band_exists[of x cv] by blast
  with t have "t = u" using band_unique by blast
  with u show "getTierFromScore cv (Num (Fin x)) = name t" by simp
qed (simp_all add: getTier_Fin, simp add: TIERS_def)

theorem getTierFromScore_monotone_partition_witness:
  "(0::real) \<le> 34 \<and> (34::real) < 35 \<and> (35::real) \<le> 100
   \<and> tier_rank (getTierFromScore no_conversion (Num (Fin 34)))
       \<le> tier_rank (getTierFromScore no_conversion (Num (Fin 35)))
   \<and> getTierFromScore no_conversion (Num (Fin 35)) = ''Low-Tier Normie''"
proof -
  have h: "(0::real) \<le> 34 \<and> (34::real) < 35 \<and> (35::real) \<le> 100" by simp
  from getTierFromScore_monotone_partition[of no_conversion]
  have "\<forall>a b. 0 \<le> a \<and> a < b \<and> b \<le> 100 \<longrightarrow>
       tier_rank (getTierFromScore no_conversion (Num (Fin a)))
         \<le> tier_rank (getTierFromScore no_conversion (Num (Fin b)))"
    and "getTierFromScore no_conversion (Num (Fin 35)) = ''Low-Tier Normie''"
    by blast+
  with h show ?thesis by blast
qed

section \<open>Properties of the analysis normalizer\<close>

lemma tier_scan_clamp:
  "tier_scan (math_max (Fin 0) (math_min (Fin 100) s)) TIERS = tier_scan s TIERS"
  by (cases s) (simp_all add: math_min_def math_max_def TIERS_def)

lemma accepted_score_tier:
  "normalizedAnalysis cv analysis = Accepted n \<Longrightarrow>
   tier n = getTierFromScore cv (js_or (get_opt analysis ''mogScore'') (Num (Fin 50))) \<and>
   mogScore n = math_max (Fin 0) (math_min (Fin 100)
                  (to_number cv (js_or (get_opt analysis ''mogScore'') (Num (Fin 50)))))"
  by (auto simp: normalizedAnalysis_def split: option.splits if_splits)

lemma clamp_in_range: "s \<noteq> NaN \<Longrightarrow> num_in_range (math_max (Fin 0) (math_min (Fin 100) s))"
  by (cases s) (simp_all add: math_min_def math_max_def num_in_range_def)

text \<open>
  Claim C4. The tier of an accepted analysis is \<^verbatim>\<open>getTierFromScore\<close> of its normalized
  score, and two payloads that differ only in their \<^verbatim>\<open>tier\<close> property (one suggests a
  tier, the other suggests another or none) are normalized to the same result.
\<close>

theorem tier_recomputed_from_score:
  "(normalizedAnalysis cv analysis = Accepted n \<longrightarrow>
      tier n = getTierFromScore cv (Num (mogScore n))) \<and>
   ((\<forall>k. k \<noteq> ''tier'' \<longrightarrow> map_of kvs k = map_of kvs' k) \<longrightarrow>
      normalizedAnalysis cv (Obj kvs') = normalizedAnalysis cv (Obj kvs))"
proof (intro conjI impI)
  assume "normalizedAnalysis cv analysis = Accepted n"
  from accepted_score_tier[OF this] show "tier n = getTierFromScore cv (Num (mogScore n))"
    by (simp add: getTierFromScore_def tier_scan_clamp)
next
  assume a: "\<forall>k. k \<noteq> ''tier'' \<longrightarrow> map_of kvs k = map_of kvs' k"
  have g: "get_opt (Obj kvs') k = get_opt (Obj kvs) k" if "k \<noteq> ''tier''" for k
    using a that by (simp add: get_opt_def)
  have p: "get_prop (Obj kvs') k = get_prop (Obj kvs) k" if "k \<noteq> ''tier''" for k
    using a that by simp
  show "normalizedAnalysis cv (Obj kvs') = normalizedAnalysis cv (Obj kvs)"
    unfolding normalizedAnalysis_def
    by (simp del: get_prop.simps add: g p cong: option.case_cong if_cong)
qed

theorem tier_recomputed_from_score_witness:
  "normalizedAnalysis no_conversion (Obj suggested_tier_payload)
     = normalizedAnalysis no_conversion (Obj [(''mogScore'', Num (Fin 40))])
   \<and> (\<exists>n. normalizedAnalysis no_conversion (Obj suggested_tier_payload) = Accepted n
          \<and> tier n = ''Low-Tier Normie''
          \<and> tier n = getTierFromScore no_conversion (Num (mogScore n)))"
proof -
  have h: "\<forall>k. k \<noteq> ''tier'' \<longrightarrow>
      map_of [(''mogScore'', Num (Fin 40))] k = map_of suggested_tier_payload k"
    by (simp add: suggested_tier_payload_def)
  obtain n where n: "normalizedAnalysis no_conversion (Obj suggested_tier_payload) = Accepted n"
    by (simp add: normalizedAnalysis_def suggested_tier_payload_def)
  have t: "tier n = ''Low-Tier Normie''"
    using accepted_score_tier[OF n]
    by (simp add: suggested_tier_payload_def get_opt_def js_or_def getTier_Fin)
  from tier_recomputed_from_score[of no_conversion "Obj suggested_tier_payload" n
      "[(''mogScore'', Num (Fin 40))]" suggested_tier_payload] h n t
  show ?thesis by blast
qed

text \<open>
  Claim C10. When the provider's accepted analysis reports \<^verbatim>\<open>mogScore\<close> 0 or omits
  the property, the normalized score is 50 and the tier is ``Normie'', not 0 and
  ``Gym Bro''.
\<close>

theorem falsy_score_defaults_to_50:
  "get_opt analysis ''mogScore'' = Num (Fin 0) \<or> get_opt analysis ''mogScore'' = Undefined \<Longrightarrow>
   normalizedAnalysis cv analysis = Accepted n \<Longrightarrow>
   mogScore n = Fin 50 \<and> tier n = ''Normie'' \<and> mogScore n \<noteq> Fin 0 \<and> tier n \<noteq> ''Gym Bro''"
  by (auto dest!: accepted_score_tier simp: js_or_def math_min_def math_max_def getTier_Fin)

theorem falsy_score_defaults_to_50_witness:
  "get_opt zero_score_payload ''mogScore'' = Num (Fin 0)
   \<and> (\<exists>n. normalizedAnalysis no_conversion zero_score_payload = Accepted n
          \<and> mogScore n = Fin 50 \<and> tier n = ''Normie'')"
proof -
  have h: "get_opt zero_score_payload ''mogScore'' = Num (Fin 0)"
    by (simp add: zero_score_payload_def get_opt_def)
  obtain n where n: "normalizedAnalysis no_conversion zero_score_payload = Accepted n"
    by (simp add: normalizedAnalysis_def zero_score_payload_def)
  from falsy_score_defaults_to_50[OF disjI1, OF h n] h n show ?thesis by blast
qed

text \<open>
  Claim C2, as stated, fails: only \<^verbatim>\<open>mogScore\<close> is clamped. A provider payload with
  \<^verbatim>\<open>symmetry\<close> 250 and a chest score of 150 is accepted with both values unchanged.
\<close>

theorem numeric_fields_clamped_counterexample:
  "normalizedAnalysis no_conversion out_of_range_payload =
     Accepted
       \<lparr>isValidPhysique = True, mogScore = Fin 80, tier = ''Chad'',
        muscleBreakdown =
          \<lparr>chest = Num (Fin 150), shoulders = Null, back' = Null, arms = Null, legs = Null,
           core = Null, leanness = Null\<rparr>,
        notVisible = Arr [], weakPoints = Arr [], strongPoints = Arr [],
        symmetry = Num (Fin 250), overallAssessment = Str ''Analysis complete.'',
        improvementTips = Arr [], scanSteps = Arr [], aiPowered = True\<rparr>
   \<and> \<not> field_in_range (Num (Fin 250)) \<and> \<not> field_in_range (Num (Fin 150))"
  by (simp add: normalizedAnalysis_def out_of_range_payload_def get_opt_def js_or_def
      js_nullish_def math_min_def math_max_def getTier_Fin num_in_range_def)

text \<open>
  Claim C2, amended. For every accepted analysis the normalized \<^verbatim>\<open>mogScore\<close> lies in
  \<open>[0,100]\<close> whenever the provider's score (50 in place of a falsy one) converts to a
  number; \<^verbatim>\<open>symmetry\<close> and the entries of \<^verbatim>\<open>muscleBreakdown\<close> are not clamped: they
  are the provider's values, with 70 for a falsy symmetry and \<^verbatim>\<open>null\<close> for a missing
  entry.
\<close>

theorem mogScore_clamped_rest_passed_through:
  assumes "normalizedAnalysis cv analysis = Accepted n"
  shows "(to_number cv (js_or (get_opt analysis ''mogScore'') (Num (Fin 50))) \<noteq> NaN
            \<longrightarrow> num_in_range (mogScore n))
    \<and> symmetry n = js_or (get_opt analysis ''symmetry'') (Num (Fin 70))
    \<and> chest (muscleBreakdown n) = js_nullish (get_opt (get_opt analysis ''muscleBreakdown'') ''chest'') Null
    \<and> shoulders (muscleBreakdown n) = js_nullish (get_opt (get_opt analysis ''muscleBreakdown'') ''shoulders'') Null
    \<and> back' (muscleBreakdown n) = js_nullish (get_opt (get_opt analysis ''muscleBreakdown'') ''back'') Null
    \<and> arms (muscleBreakdown n) = js_nullish (get_opt (get_opt analysis ''muscleBreakdown'') ''arms'') Null
    \<and> legs (muscleBreakdown n) = js_nullish (get_opt (get_opt analysis ''muscleBreakdown'') ''legs'') Null
    \<and> core (muscleBreakdown n) = js_nullish (get_opt (get_opt analysis ''muscleBreakdown'') ''core'') Null
    \<and> leanness (muscleBreakdown n) = js_nullish (get_opt (get_opt analysis ''muscleBreakdown'') ''leanness'') Null"
proof -
  have "to_number cv (js_or (get_opt analysis ''mogScore'') (Num (Fin 50))) \<noteq> NaN
          \<longrightarrow> num_in_range (mogScore n)"
    using accepted_score_tier[OF assms] by (simp add: clamp_in_range)
  moreover have "\<exists>valid. get_prop analysis ''isValidPhysique'' = Some valid \<and> valid \<noteq> Bool False"
    using assms by (auto simp: normalizedAnalysis_def split: option.splits if_splits)
  ultimately show ?thesis
    using assms by (auto simp: normalizedAnalysis_def)
qed

theorem mogScore_clamped_rest_passed_through_witness:
  "\<exists>n. normalizedAnalysis no_conversion out_of_range_payload = Accepted n
      \<and> to_number no_conversion (js_or (get_opt out_of_range_payload ''mogScore'') (Num (Fin 50))) \<noteq> NaN
      \<and> num_in_range (mogScore n)
      \<and> symmetry n = Num (Fin 250)"
proof -
  obtain n where n: "normalizedAnalysis no_conversion out_of_range_payload = Accepted n"
    by (simp add: normalizedAnalysis_def out_of_range_payload_def)
  have h: "to_number no_conversion (js_or (get_opt out_of_range_payload ''mogScore'') (Num (Fin 50))) \<noteq> NaN"
    by (simp add: out_of_range_payload_def get_opt_def js_or_def)
  have s: "js_or (get_opt out_of_range_payload ''symmetry'') (Num (Fin 70)) = Num (Fin 250)"
    by (simp add: out_of_range_payload_def get_opt_def js_or_def)
  from mogScore_clamped_rest_passed_through[OF n] h s n show ?thesis by auto
qed

section \<open>Properties of the identity check\<close>

lemma identity_fail_open:
  "previousScan = None \<or> (\<exists>s. previousScan = Some s \<and> \<not> truthy (frontPhotoUrl s))
     \<or> \<not> api \<or> reply = CallFailed m \<Longrightarrow>
   scan_identity_block api userId previousScan frontPhoto reply = Proceed"
  by (auto simp: scan_identity_block_def verifyUserIdentity_def Let_def split: option.splits)

lemma identity_rejection_cause:
  "scan_identity_block api userId previousScan frontPhoto reply = DifferentUser r c \<Longrightarrow>
   \<exists>result v. reply = Reply result \<and> get_prop result ''isSamePerson'' = Some v \<and> \<not> truthy v"
  by (auto simp: scan_identity_block_def verifyUserIdentity_def Let_def
      split: option.splits if_splits provider_reply.splits)

text \<open>
  Claim C8 fails on the code for a provider reply without a verdict. The reply
  \<^verbatim>\<open>{"confidence": 90, "reason": "same build and tattoos"}\<close> has no
  \<^verbatim>\<open>isSamePerson\<close>; the check returns \<^verbatim>\<open>undefined\<close> for it, which
  \<^verbatim>\<open>!identityCheck.isSamePerson\<close> treats like \<^verbatim>\<open>false\<close>, and the scan is rejected
  as a different user. (With no prior image, no API key or a failing call the block
  proceeds: \<open>identity_fail_open\<close>.)
\<close>

theorem identity_rejected_without_verdict:
  "scan_identity_block True (Str ''user-1'')
      (Some \<lparr>frontPhotoUrl = Str ''data:image/jpeg;base64,AAAA''\<rparr>)
      (Str ''data:image/jpeg;base64,BBBB'') verdictless_reply
     = DifferentUser (Str ''same build and tattoos'') (Num (Fin 90))"
  by (simp add: scan_identity_block_def verifyUserIdentity_def get_opt_def verdictless_reply_def)

section \<open>Properties of the plan generator and of serving\<close>

lemma map_index_all:
  "map_index f i xs = Some ys \<Longrightarrow> (\<And>j x y. f j x = Some y \<Longrightarrow> P y) \<Longrightarrow> list_all P ys"
  by (induction xs arbitrary: i ys) (auto split: option.splits)

lemma map_index_length: "map_index f i xs = Some ys \<Longrightarrow> length ys = length xs"
  by (induction xs arbitrary: i ys) (auto split: option.splits)

lemma repair_steps_length:
  "repair_steps cv s = Some v \<Longrightarrow> \<exists>ss. v = Arr ss \<and> 3 \<le> length ss"
  by (cases s)
     (auto simp: repair_steps_def defaultSteps_def js_ge_def dest: map_index_length split: if_splits)

lemma repair_exercise_steps:
  assumes "repair_exercise cv i j ex = Some e"
  shows "3 \<le> length (steps_of e)"
proof (cases "get_prop ex ''id''")
  case None
  with assms show ?thesis by (simp add: repair_exercise_def)
next
  case (Some ident)
  show ?thesis
  proof (cases "repair_steps cv (get_opt ex ''steps'')")
    case None
    with Some assms show ?thesis by (simp add: repair_exercise_def)
  next
    case s: (Some steps)
    from repair_steps_length[OF s] obtain ss where ss: "steps = Arr ss" "3 \<le> length ss" by blast
    from Some s assms have "steps_of e = ss"
      unfolding repair_exercise_def by (auto simp: steps_of_def get_opt_def ss)
    with ss show ?thesis by simp
  qed
qed

lemma exercises_of_Obj_append:
  "map_of kvs ''exercises'' = None \<Longrightarrow> exercises_of (Obj (kvs @ [(''exercises'', Arr exs)])) = exs"
  by (simp add: exercises_of_def get_opt_def map_add_def)

lemma repair_day_exercises:
  assumes "repair_day cv p i d = Some d'"
  shows "list_all (\<lambda>ex. 3 \<le> length (steps_of ex)) (exercises_of d')"
proof -
  from assms obtain title exs exercises kvs where
    m: "map_index (repair_exercise cv i) 0 exs = Some exercises" and
    d': "d' = Obj (kvs @ [(''exercises'', Arr exercises)])" and
    k: "map_of kvs ''exercises'' = None"
    unfolding repair_day_def
    by (cases "get_prop d ''title''"; cases "as_array (js_or (get_opt d ''exercises'') (Arr []))";
        cases "map_index (repair_exercise cv i) 0 (the (as_array (js_or (get_opt d ''exercises'') (Arr []))))";
        cases p) (simp_all, force+)
  have "list_all (\<lambda>ex. 3 \<le> length (steps_of ex)) exercises"
    using m by (rule map_index_all) (rule repair_exercise_steps)
  then show ?thesis by (simp add: d' exercises_of_Obj_append[OF k])
qed

text \<open>The repair pass of both generators establishes the Exercise invariant.\<close>

lemma formatted_days_invariant:
  assumes "formatted_days cv p v = Some ds"
  shows "exercise_invariant ds"
proof -
  from assms obtain xs where "map_index (repair_day cv p) 0 xs = Some ds"
    by (auto simp: formatted_days_def split: option.splits)
  then show ?thesis
    unfolding exercise_invariant_def by (rule map_index_all) (rule repair_day_exercises)
qed

lemma fallback_exercise_steps:
  "fallback_exercise i j ex = Some e \<Longrightarrow> 3 \<le> length (steps_of e)"
  by (cases "get_prop ex ''name''")
     (auto simp: fallback_exercise_def steps_of_def get_opt_def fallback_steps_def)

lemma fallback_day_exercises:
  assumes "fallback_day i d = Some d'"
  shows "list_all (\<lambda>ex. 3 \<le> length (steps_of ex)) (exercises_of d')"
proof -
  from assms obtain exs exercises kvs where
    m: "map_index (fallback_exercise i) 0 exs = Some exercises" and
    d': "d' = Obj (kvs @ [(''exercises'', Arr exercises)])" and
    k: "map_of kvs ''exercises'' = None"
    unfolding fallback_day_def
    by (cases "get_prop d ''title''"; cases "as_array (js_or (get_opt d ''exercises'') (Arr []))";
        cases "map_index (fallback_exercise i) 0 (the (as_array (js_or (get_opt d ''exercises'') (Arr []))))")
       (simp_all, force)
  have "list_all (\<lambda>ex. 3 \<le> length (steps_of ex)) exercises"
    using m by (rule map_index_all) (rule fallback_exercise_steps)
  then show ?thesis by (simp add: d' exercises_of_Obj_append[OF k])
qed

text \<open>Progressive mode: every week it returns, on either path, satisfies the invariant.\<close>

lemma generateNextWeekPlan_invariant:
  assumes "generateNextWeekPlan cv openai pb primary fallback = Some ds"
  shows "exercise_invariant ds"
proof -
  from assms consider v where "formatted_days cv True v = Some ds"
    | xs where "map_index fallback_day 0 xs = Some ds"
    unfolding generateNextWeekPlan_def
    by (auto split: if_splits option.splits completion.splits)
  then show ?thesis
  proof cases
    case 1
    then show ?thesis by (rule formatted_days_invariant)
  next
    case 2
    then show ?thesis
      unfolding exercise_invariant_def by (rule map_index_all) (rule fallback_day_exercises)
  qed
qed

text \<open>Cold start: a plan from the first completion satisfies the invariant.\<close>

lemma generateAITrainingPlan_primary_invariant:
  "formatted_days cv False (prop_of plan ''days'') = Some ds \<Longrightarrow>
   \<exists>p. generateAITrainingPlan cv True True now (Parsed plan) fallback = Some p
        \<and> days p = ds \<and> plan_invariant p"
  by (simp add: generateAITrainingPlan_def plan_invariant_def formatted_days_invariant)

text \<open>
  Claim C6 fails on the code in two places. When the first completion of
  \<^verbatim>\<open>generateAITrainingPlan\<close> gives no plan, the plan of the second completion is
  returned with its days only renumbered: an exercise the provider gave one step keeps
  one step. And \<^verbatim>\<open>GET /api/training/:userId/weekly\<close> counts a stored plan whose exercises
  have two steps as complete and serves it with two steps, because \<^verbatim>\<open>isPlanComplete\<close>
  and the serving repair test \<^verbatim>\<open>length >= 2\<close> where the generators test
  \<^verbatim>\<open>length >= 3\<close>.
\<close>

theorem short_steps_returned_and_served:
  "map_option plan_invariant
      (generateAITrainingPlan no_conversion True True 1000 NoPlan one_step_reply) = Some False
   \<and> isPlanComplete no_conversion two_step_week = Some True
   \<and> map_option exercise_invariant (served_days no_conversion two_step_week) = Some False"
proof (intro conjI)
  show "map_option plan_invariant
      (generateAITrainingPlan no_conversion True True 1000 NoPlan one_step_reply) = Some False"
    by (simp add: generateAITrainingPlan_def one_step_reply_def prop_of_def js_or_def
        renumber_day_def plan_invariant_def exercise_invariant_def exercises_of_def steps_of_def
        get_opt_def)
  show "isPlanComplete no_conversion two_step_week = Some True"
    by (simp add: isPlanComplete_def two_step_week_def two_step_day_def js_lt_def)
  show "map_option exercise_invariant (served_days no_conversion two_step_week) = Some False"
    by (simp add: served_days_def two_step_week_def two_step_day_def serve_day_def
        serve_exercise_def js_or_def get_opt_def js_ge_def exercise_invariant_def
        exercises_of_def steps_of_def)
qed

theorem short_steps_returned_and_served_witness:
  "isPlanComplete no_conversion two_step_week = Some True
   \<and> map_option exercise_invariant (served_days no_conversion two_step_week) = Some False
   \<and> map_option plan_invariant
        (generateAITrainingPlan no_conversion True True 1000 NoPlan one_step_reply) = Some False"
  using short_steps_returned_and_served by blast

section \<open>Properties of the plan state machine\<close>

lemma map_of_set_prop:
  "map_of (set_prop k v kvs) k' = (if k' = k then Some v else map_of kvs k')"
  by (induction kvs) auto

lemma get_opt_set_field:
  "get_opt (set_field k v (Obj kvs)) k' = (if k' = k then v else get_opt (Obj kvs) k')"
  by (simp add: set_field_def get_opt_def map_of_set_prop)

lemma set_field_Obj: "\<exists>kvs'. set_field k v (Obj kvs) = Obj kvs'"
  by (simp add: set_field_def)

lemma findIndex_day_At:
  "findIndex_day n ds k = At i \<Longrightarrow>
   k \<le> i \<and> i - k < length ds \<and> (\<exists>v. get_prop (ds ! (i - k)) ''day'' = Some v \<and> strict_eq v n)"
proof (induction ds arbitrary: k)
  case Nil
  then show ?case by simp
next
  case (Cons d ds)
  from Cons.prems obtain v where v: "get_prop d ''day'' = Some v"
    by (cases "get_prop d ''day''") simp_all
  show ?case
  proof (cases "strict_eq v n")
    case True
    with Cons.prems v have "i = k" by simp
    with v True show ?thesis by simp
  next
    case False
    with Cons.prems v have r: "findIndex_day n ds (Suc k) = At i" by simp
    from Cons.IH[OF r] obtain w where
      "Suc k \<le> i" "i - Suc k < length ds" "get_prop (ds ! (i - Suc k)) ''day'' = Some w"
      "strict_eq w n" by blast
    then show ?thesis by (auto simp: nth_Cons' Suc_diff_le)
  qed
qed

lemma findIndex_day_At0:
  "findIndex_day n ds 0 = At i \<Longrightarrow>
   i < length ds \<and> (\<exists>v. get_prop (ds ! i) ''day'' = Some v \<and> strict_eq v n)"
  using findIndex_day_At[of n ds 0 i] by simp

lemma set_field_Obj_eq [simp]: "set_field k v (Obj kvs) = Obj (set_prop k v kvs)"
  by (simp add: set_field_def)




lemma non_null_iff: "get_prop d k = None \<longleftrightarrow> d = Null \<or> d = Undefined"
  by (cases d) auto


lemma advance_next_day_length [simp]: "length (advance_next_day ts n ds) = length ds"
  by (simp add: advance_next_day_def split: find_result.splits)




lemma list_update_all:
  "list_all P ds \<Longrightarrow> P x \<Longrightarrow> list_all P (ds[j := x])"
  using set_update_subset_insert[of ds j x] by (auto simp: list_all_iff)




lemma marked_awaiting:
  assumes "complete_day_marked cv ts st uid req now plan = AwaitingNextWeek p st'"
  shows "plans st' uid = Some (p_plan p)
    \<and> every_done (weeklyPlan (p_plan p)) = Some True
    \<and> currentWeek (p_plan p) = currentWeek plan
    \<and> length (weeklyPlan (p_plan p)) = length (weeklyPlan plan)
    \<and> (\<exists>e. completedHistory (p_plan p) = completedHistory plan @ [e])
    \<and> regeneratingPlans st' = regeneratingPlans st
    \<and> p_user p = users st' uid
    \<and> p_dayNumber p = dayNumber req"
  using assms unfolding complete_day_marked_def Let_def
  by (auto split: if_splits find_result.splits option.splits)


lemma marked_awaiting_shape:
  assumes "complete_day_marked cv ts st uid req now plan = AwaitingNextWeek p st'"
  shows "\<exists>i exs. findIndex_day (dayNumber req) (weeklyPlan plan) 0 = At i
     \<and> \<not> list_ex (\<lambda>d. get_prop d ''day'' = None) (weeklyPlan plan)
     \<and> complete_exercises (get_opt (advance_next_day ts (dayNumber req)
           ((weeklyPlan plan)[i := mark_done now (weeklyPlan plan ! i)]) ! i) ''exercises'') = Some exs
     \<and> weeklyPlan (p_plan p) =
           (advance_next_day ts (dayNumber req) ((weeklyPlan plan)[i := mark_done now (weeklyPlan plan ! i)]))
             [i := with_exercises exs (advance_next_day ts (dayNumber req)
                     ((weeklyPlan plan)[i := mark_done now (weeklyPlan plan ! i)]) ! i)]"
  using assms unfolding complete_day_marked_def Let_def
  by (auto split: if_splits find_result.splits option.splits)

lemma every_done_iff:
  "every_done ds = Some True \<longleftrightarrow> list_all (\<lambda>d. get_prop d ''status'' = Some (Str ''done'')) ds"
  by (induction ds) (auto split: option.splits)

lemma status_done_Obj:
  "get_prop d ''status'' = Some (Str ''done'') \<longleftrightarrow> (\<exists>kvs. d = Obj kvs \<and> map_of kvs ''status'' = Some (Str ''done''))"
  by (cases d) (auto split: option.splits)

lemma findIndex_day_cong:
  "list_all2 (\<lambda>a b. get_prop a ''day'' = get_prop b ''day'') ds ds' \<Longrightarrow>
   findIndex_day n ds k = findIndex_day n ds' k"
  by (induction ds ds' arbitrary: k rule: list_all2_induct) (auto split: option.splits)

lemma same_day_set_field:
  "k \<noteq> ''day'' \<Longrightarrow> get_prop (set_field k v d) ''day'' = get_prop d ''day''"
  by (cases d) (simp_all add: set_field_def map_of_set_prop)

lemma same_day_mark_done: "get_prop (mark_done now d) ''day'' = get_prop d ''day''"
  by (simp add: mark_done_def same_day_set_field del: set_field_Obj_eq)

lemma same_day_with_exercises: "get_prop (with_exercises e d) ''day'' = get_prop d ''day''"
  by (simp add: with_exercises_def same_day_set_field del: set_field_Obj_eq)

lemma same_day_update:
  assumes "get_prop x ''day'' = get_prop (ds ! i) ''day''"
  shows "list_all2 (\<lambda>a b. get_prop a ''day'' = get_prop b ''day'') ds (ds[i := x])"
  unfolding list_all2_conv_all_nth
proof (intro conjI allI impI)
  fix j assume "j < length ds"
  then show "get_prop (ds ! j) ''day'' = get_prop (ds[i := x] ! j) ''day''"
    using assms by (cases "j = i") simp_all
qed simp

lemma same_day_refl: "list_all2 (\<lambda>a b. get_prop a ''day'' = get_prop b ''day'') ds ds"
  by (simp add: list_all2_conv_all_nth)

lemma same_day_advance:
  "list_all2 (\<lambda>a b. get_prop a ''day'' = get_prop b ''day'') ds (advance_next_day ts n ds)"
proof (cases "findIndex_day (plus_one ts n) ds 0")
  case (At j)
  show ?thesis
    unfolding advance_next_day_def At
    by (simp add: same_day_refl same_day_update same_day_set_field del: set_field_Obj_eq)
qed (simp_all add: advance_next_day_def same_day_refl)

lemma same_day_trans:
  "list_all2 (\<lambda>a b. get_prop a ''day'' = get_prop b ''day'') xs ys \<Longrightarrow>
   list_all2 (\<lambda>a b. get_prop a ''day'' = get_prop b ''day'') ys zs \<Longrightarrow>
   list_all2 (\<lambda>a b. get_prop a ''day'' = get_prop b ''day'') xs zs"
  by (auto simp: list_all2_conv_all_nth)

lemma marked_days_same_day:
  "list_all2 (\<lambda>a b. get_prop a ''day'' = get_prop b ''day'') ds
     ((advance_next_day ts n (ds[i := mark_done now (ds ! i)]))
        [i := with_exercises exs (advance_next_day ts n (ds[i := mark_done now (ds ! i)]) ! i)])"
proof -
  have 1: "list_all2 (\<lambda>a b. get_prop a ''day'' = get_prop b ''day'') ds (ds[i := mark_done now (ds ! i)])"
    by (rule same_day_update) (rule same_day_mark_done)
  have 2: "list_all2 (\<lambda>a b. get_prop a ''day'' = get_prop b ''day'') (ds[i := mark_done now (ds ! i)])
      (advance_next_day ts n (ds[i := mark_done now (ds ! i)]))"
    by (rule same_day_advance)
  have 3: "list_all2 (\<lambda>a b. get_prop a ''day'' = get_prop b ''day'')
      (advance_next_day ts n (ds[i := mark_done now (ds ! i)]))
      ((advance_next_day ts n (ds[i := mark_done now (ds ! i)]))
        [i := with_exercises exs (advance_next_day ts n (ds[i := mark_done now (ds ! i)]) ! i)])"
    by (rule same_day_update) (rule same_day_with_exercises)
  from 1 2 3 show ?thesis by (blast intro: same_day_trans)
qed


lemma done_mark_done:
  "get_prop d ''status'' = Some (Str ''done'') \<Longrightarrow> get_prop (mark_done now d) ''status'' = Some (Str ''done'')"
  by (cases d) (simp_all add: mark_done_def map_of_set_prop)

lemma done_with_exercises:
  "get_prop d ''status'' = Some (Str ''done'') \<Longrightarrow>
   get_prop (with_exercises e d) ''status'' = Some (Str ''done'')"
  by (cases d) (simp_all add: with_exercises_def map_of_set_prop)

lemma advance_next_day_all_done:
  assumes "list_all (\<lambda>d. get_prop d ''status'' = Some (Str ''done'')) ds"
  shows "advance_next_day ts n ds = ds"
proof (cases "findIndex_day (plus_one ts n) ds 0")
  case (At j)
  from findIndex_day_At0[OF At] have "j < length ds" by blast
  with assms have "get_prop (ds ! j) ''status'' = Some (Str ''done'')"
    by (simp add: list_all_length)
  then have "get_opt (ds ! j) ''status'' \<noteq> Str ''upcoming''"
    by (simp add: get_opt_def)
  then show ?thesis by (simp add: advance_next_day_def At)
qed (simp_all add: advance_next_day_def)

lemma exercises_mark_done:
  "get_opt (mark_done now d) ''exercises'' = get_opt d ''exercises''"
  by (cases d) (simp_all add: mark_done_def get_opt_def map_of_set_prop set_field_def)

lemma complete_exercises_again:
  assumes "complete_exercises (get_opt x ''exercises'') = Some e"
  shows "\<exists>e'. complete_exercises (get_opt (with_exercises e x) ''exercises'') = Some e'"
proof (cases "truthy (get_opt x ''exercises'')")
  case True
  with assms obtain ys where e: "e = Arr ys"
    by (auto simp: complete_exercises_def split: option.splits)
  from True have "\<exists>kvs. x = Obj kvs" by (cases x) (simp_all add: get_opt_def)
  then have "get_opt (with_exercises e x) ''exercises'' = e"
    using True by (auto simp: with_exercises_def get_opt_def map_of_set_prop)
  then show ?thesis by (simp add: e complete_exercises_def)
next
  case False
  then show ?thesis using assms by (simp add: with_exercises_def)
qed

lemma retry_marked:
  assumes a: "complete_day_marked cv ts st uid req now plan = AwaitingNextWeek p st1"
  shows "\<exists>p' st2. complete_day_marked cv ts st1 uid req now' (p_plan p) = AwaitingNextWeek p' st2"
proof -
  let ?P = "\<lambda>d. get_prop d ''status'' = Some (Str ''done'')"
  let ?n = "dayNumber req"
  let ?D = "weeklyPlan (p_plan p)"
  from marked_awaiting_shape[OF a] obtain i exs where
    f: "findIndex_day ?n (weeklyPlan plan) 0 = At i" and
    ce: "complete_exercises (get_opt (advance_next_day ts ?n
           ((weeklyPlan plan)[i := mark_done now (weeklyPlan plan ! i)]) ! i) ''exercises'') = Some exs" and
    D: "?D = (advance_next_day ts ?n ((weeklyPlan plan)[i := mark_done now (weeklyPlan plan ! i)]))
             [i := with_exercises exs (advance_next_day ts ?n
                     ((weeklyPlan plan)[i := mark_done now (weeklyPlan plan ! i)]) ! i)]"
    by (elim exE conjE) (rule that)
  from marked_awaiting[OF a] have "every_done ?D = Some True" by (elim conjE)
  then have allP: "list_all ?P ?D" by (simp add: every_done_iff)
  have nn: "\<not> list_ex (\<lambda>d. get_prop d ''day'' = None) ?D"
    using allP by (auto simp: list_all_iff list_ex_iff non_null_iff)
  have "list_all2 (\<lambda>a b. get_prop a ''day'' = get_prop b ''day'') (weeklyPlan plan) ?D"
    using marked_days_same_day[of "weeklyPlan plan" ts ?n i now exs] by (simp add: D)
  then have "findIndex_day ?n (weeklyPlan plan) 0 = findIndex_day ?n ?D 0"
    by (rule findIndex_day_cong)
  with f have fi: "findIndex_day ?n ?D 0 = At i" by simp
  from findIndex_day_At0[OF f] have i: "i < length ?D" by (simp add: D)
  define D1 where "D1 = ?D[i := mark_done now' (?D ! i)]"
  have Pi: "?P (?D ! i)" using allP i by (simp add: list_all_length)
  have P1i: "?P (mark_done now' (?D ! i))" by (rule done_mark_done[OF Pi])
  have allP1: "list_all ?P D1" unfolding D1_def using allP P1i by (simp add: list_update_all)
  have D1i: "D1 ! i = mark_done now' (?D ! i)" using i by (simp add: D1_def)
  have adv: "advance_next_day ts ?n D1 = D1" by (rule advance_next_day_all_done[OF allP1])
  have Di: "?D ! i = with_exercises exs (advance_next_day ts ?n
                     ((weeklyPlan plan)[i := mark_done now (weeklyPlan plan ! i)]) ! i)"
    using i by (subst D) (simp add: D)
  from complete_exercises_again[OF ce] obtain e where
    e: "complete_exercises (get_opt (D1 ! i) ''exercises'') = Some e"
    by (auto simp: D1i exercises_mark_done Di)
  define D3 where "D3 = D1[i := with_exercises e (D1 ! i)]"
  have "list_all ?P D3"
    unfolding D3_def using allP1 P1i by (simp add: list_update_all D1i done_with_exercises)
  then have ed: "every_done D3 = Some True" by (simp add: every_done_iff)
  show ?thesis
    unfolding complete_day_marked_def Let_def
    using nn fi adv[unfolded D1_def] e[unfolded D1_def] ed[unfolded D3_def D1_def] i by simp
qed

lemma finish_failed:
  "nextWeekResult = None \<or> nextWeekResult = Some [] \<Longrightarrow>
   \<exists>r. complete_day_finish st uid p now nextWeekResult = (Success r, st)
      \<and> \<not> r_newWeekGenerated r \<and> r_allDaysCompleted r \<and> r_currentWeek r = week_or_1 (p_plan p)"
  by (auto simp: complete_day_finish_def Let_def)

lemma begin_awaiting:
  assumes "complete_day_begin cv ts st uid req now cold = AwaitingNextWeek p st1"
  shows "\<exists>st0 plan0. complete_day_marked cv ts st0 uid req now plan0 = AwaitingNextWeek p st1
      \<and> regeneratingPlans st0 = regeneratingPlans st
      \<and> (\<forall>plan. plans st uid = Some plan \<longrightarrow> plan0 = plan \<and> st0 = st)"
  using assms unfolding complete_day_begin_def Let_def
  by (auto split: option.splits if_splits)

text \<open>
  The primary handler keeps the week when the generator fails. When a request has marked
  the last day and reached the call of \<^verbatim>\<open>generateNextWeekPlan\<close>, and that call throws
  or returns no days, the request is answered with \<^verbatim>\<open>newWeekGenerated: false\<close> and the
  store is as it was when the call was made: every day of the stored plan is done, the
  week number is the one the plan had, the days are not replaced. The same completion
  request made again reaches the call again (and records the workout again).
\<close>

lemma primary_rollover_failure_keeps_week:
  assumes "complete_day_begin cv ts st userId req now cold = AwaitingNextWeek p st1"
    and "nextWeekResult = None \<or> nextWeekResult = Some []"
  shows "(\<exists>r. complete_day cv ts st userId req now cold nextWeekResult = (Success r, st1)
            \<and> \<not> r_newWeekGenerated r \<and> r_allDaysCompleted r)
    \<and> plans st1 userId = Some (p_plan p)
    \<and> every_done (weeklyPlan (p_plan p)) = Some True
    \<and> (\<forall>plan. plans st userId = Some plan \<longrightarrow>
          currentWeek (p_plan p) = currentWeek plan
          \<and> length (weeklyPlan (p_plan p)) = length (weeklyPlan plan))
    \<and> (\<forall>now' cold'. \<exists>p' st2.
          complete_day_begin cv ts st1 userId req now' cold' = AwaitingNextWeek p' st2)"
proof -
  from begin_awaiting[OF assms(1)] obtain st0 plan0 where
    m: "complete_day_marked cv ts st0 userId req now plan0 = AwaitingNextWeek p st1" and
    same: "\<forall>plan. plans st userId = Some plan \<longrightarrow> plan0 = plan \<and> st0 = st"
    by (elim exE conjE) (rule that)
  note aw = marked_awaiting[OF m]
  from aw have stored: "plans st1 userId = Some (p_plan p)" by (elim conjE)
  from finish_failed[OF assms(2), of st1 userId p now] obtain r where
    "complete_day_finish st1 userId p now nextWeekResult = (Success r, st1)"
    "\<not> r_newWeekGenerated r" "r_allDaysCompleted r"
    by (elim exE conjE) (rule that)
  then have 1: "\<exists>r. complete_day cv ts st userId req now cold nextWeekResult = (Success r, st1)
            \<and> \<not> r_newWeekGenerated r \<and> r_allDaysCompleted r"
    by (simp add: complete_day_def assms(1))
  have 2: "\<exists>p' st2. complete_day_begin cv ts st1 userId req now' cold' = AwaitingNextWeek p' st2"
    for now' cold'
    using retry_marked[OF m, of now'] by (simp add: complete_day_begin_def stored)
  from aw same have 3: "\<forall>plan. plans st userId = Some plan \<longrightarrow>
          currentWeek (p_plan p) = currentWeek plan
          \<and> length (weeklyPlan (p_plan p)) = length (weeklyPlan plan)"
    by simp
  from aw have 4: "every_done (weeklyPlan (p_plan p)) = Some True" by (elim conjE)
  from 1 stored 4 3 2 show ?thesis by blast
qed

lemma finish_any:
  "\<exists>r st'. complete_day_finish st2 uid p now nwr = (Success r, st')
     \<and> r_mogPointsEarned r = p_mogPointsEarned p
     \<and> regeneratingPlans st' = regeneratingPlans st2
     \<and> (plans st2 uid = Some (p_plan p) \<longrightarrow>
          (\<exists>plan''. plans st' uid = Some plan''
             \<and> completedHistory plan'' = completedHistory (p_plan p)
             \<and> (\<not> r_newWeekGenerated r \<longrightarrow> plan'' = p_plan p)))
     \<and> (\<forall>u. users st2 uid = Some u \<longrightarrow>
          (\<exists>u'. users st' uid = Some u' \<and> user_mogScore u' = user_mogScore u))"
  unfolding complete_day_finish_def Let_def
  by (cases nwr; cases "p_user p") (auto split: option.splits)

lemmas sample_defs = sample_state_def sample_plan_def sample_user_def sample_day_def day3_request_def

lemmas handler_defs = complete_day_def complete_day_begin_def complete_day_marked_def
  complete_day_finish_def Let_def mark_done_def advance_next_day_def complete_exercises_def
  with_exercises_def get_opt_def reward_user_def week_or_1_def history_entry_def
  exercise_count_or_3_def js_or_def mog_points_def score_or_0_def

lemma marked_keeps_guard:
  "complete_day_marked cv ts st uid req now plan = Answered r st' \<Longrightarrow>
   regeneratingPlans st' = regeneratingPlans st"
  unfolding complete_day_marked_def Let_def
  by (auto split: if_splits find_result.splits option.splits)

lemma begin_keeps_guard:
  assumes "complete_day_begin cv ts st uid req now cold = Answered r st'
     \<or> complete_day_begin cv ts st uid req now cold = AwaitingNextWeek p st'"
  shows "regeneratingPlans st' = regeneratingPlans st"
proof -
  have m: "regeneratingPlans s' = regeneratingPlans s"
    if "complete_day_marked cv ts s uid req now plan = Answered r s'
      \<or> complete_day_marked cv ts s uid req now plan = AwaitingNextWeek p s'" for s s' plan
    using that marked_keeps_guard[of cv ts s uid req now plan r s'] marked_awaiting[of cv ts s uid req now plan p s']
    by (elim disjE) simp_all
  show ?thesis
  proof (cases "plans st uid")
    case (Some plan)
    with assms m[of st plan st'] show ?thesis by (simp add: complete_day_begin_def)
  next
    case None
    show ?thesis
    proof (cases "users st uid")
      case n: None
      with None assms show ?thesis by (auto simp: complete_day_begin_def)
    next
      case (Some user)
      show ?thesis
      proof (cases "truthy (latestScan user) \<and> cold \<noteq> None")
        case False
        with None Some assms show ?thesis
          by (auto simp: complete_day_begin_def split: if_splits)
      next
        case True
        then obtain newPlan where c: "cold = Some newPlan" by auto
        from True c None Some assms
        m[of "st\<lparr>plans := (plans st)(uid \<mapsto> \<lparr>currentWeek = 1, weeklyPlan = days newPlan,
                                      completedHistory = [], wp_weekId = weekId newPlan,
                                      wp_mission = mission newPlan\<rparr>),
                 users := (users st)(uid \<mapsto> user\<lparr>weeklyTrainingPlan := plan_object newPlan\<rparr>)\<rparr>"
            "\<lparr>currentWeek = 1, weeklyPlan = days newPlan,
                                      completedHistory = [], wp_weekId = weekId newPlan,
                                      wp_mission = mission newPlan\<rparr>" st']
        show ?thesis by (simp add: complete_day_begin_def Let_def)
      qed
    qed
  qed
qed

lemma complete_day_keeps_guard:
  "regeneratingPlans (snd (complete_day cv ts st uid req now cold nwr)) = regeneratingPlans st"
proof (cases "complete_day_begin cv ts st uid req now cold")
  case (Answered r st')
  then show ?thesis using begin_keeps_guard[of cv ts st uid req now cold r st'] by (simp add: complete_day_def)
next
  case (AwaitingNextWeek p st')
  from finish_any[of st' uid p now nwr] obtain r st'' where
    "complete_day_finish st' uid p now nwr = (Success r, st'')"
    "regeneratingPlans st'' = regeneratingPlans st'"
    by (elim exE conjE) (rule that)
  then show ?thesis
    using AwaitingNextWeek begin_keeps_guard[of cv ts st uid req now cold undefined st' p]
    by (simp add: complete_day_def)
qed



















section \<open>The handlers on a sample plan\<close>

lemma digit_chars:
  "char_of (48::nat) = CHR ''0''" "char_of (49::nat) = CHR ''1''" "char_of (50::nat) = CHR ''2''"
  "char_of (51::nat) = CHR ''3''" "char_of (52::nat) = CHR ''4''" "char_of (53::nat) = CHR ''5''"
  "char_of (54::nat) = CHR ''6''" "char_of (55::nat) = CHR ''7''" "char_of (56::nat) = CHR ''8''"
  "char_of (57::nat) = CHR ''9''"
  by (simp_all add: char_of_def bit_Suc_0_iff)



text \<open>
  The legacy endpoint on the same request: the upcoming day is completed there too.
\<close>

lemma legacy_endpoint_has_no_status_check:
  "fst (complete_day_legacy (sample_state ''today'' ''upcoming'') ''u1'' (Num (Fin 3)) 1000 None)
     = Success \<lparr>r_dayCompleted = Num (Fin 3), r_mogPointsEarned = Fin (7 / 20),
                r_newMogScore = Some (Fin (1007 / 20)), r_totalWorkouts = Some 3,
                r_allDaysCompleted = False, r_newWeekGenerated = False, r_currentWeek = 1\<rparr>"
  by (simp add: complete_day_legacy_def sample_defs handler_defs)

text \<open>
  The request's \<^verbatim>\<open>exerciseCount\<close> is used as it comes: with -2 the points earned are
  -0.1 and the user's score falls from 50 to 49.9.
\<close>

lemma negative_exercise_count_lowers_score:
  "fst (complete_day no_conversion no_rendering (sample_state ''today'' ''upcoming'') ''u1''
          negative_count_request 1000 None None)
     = Success \<lparr>r_dayCompleted = Num (Fin 3), r_mogPointsEarned = Fin (- 1 / 10),
                r_newMogScore = Some (Fin (499 / 10)), r_totalWorkouts = Some 3,
                r_allDaysCompleted = False, r_newWeekGenerated = False, r_currentWeek = 1\<rparr>"
  by (simp add: sample_defs handler_defs negative_count_request_def)

text \<open>
  A found day whose \<^verbatim>\<open>exercises\<close> are a string: both handlers answer 500 and leave the
  store as it was.
\<close>

lemma text_exercises_answer_500:
  "complete_day no_conversion no_rendering text_exercises_state ''u1'' day3_request 1000 None None
     = (Status500 ''Failed to complete day'', text_exercises_state)
   \<and> complete_day_legacy text_exercises_state ''u1'' (Num (Fin 3)) 1000 None
     = (Status500 ''Failed to complete day'', text_exercises_state)"
  by (simp add: text_exercises_state_def complete_day_legacy_def sample_defs handler_defs)

text \<open>
  Claim C7 fails on the legacy endpoint. The progressive completion parses but has no days,
  so \<^verbatim>\<open>generateNextWeekPlan\<close> returns the empty array. The user's plan has days 1 and 2
  done and day 3 today, and day 3 is completed. The legacy handler tests \<^verbatim>\<open>if (nextWeek)\<close>,
  which the empty array passes: it answers with a new week 2 and stores week 2 with no days.
  The primary handler, on the same plan and the same generator result, tests
  \<^verbatim>\<open>nextWeek && nextWeek.length > 0\<close> and keeps week 1 with its three days, all done.
\<close>

theorem legacy_rollover_accepts_empty_week:
  "generateNextWeekPlan no_conversion True True dayless_reply NoPlan = Some []
   \<and> fst (complete_day_legacy (sample_state ''done'' ''today'') ''u1'' (Num (Fin 3)) 1000
            (generateNextWeekPlan no_conversion True True dayless_reply NoPlan))
     = Success \<lparr>r_dayCompleted = Num (Fin 3), r_mogPointsEarned = Fin (7 / 20),
                r_newMogScore = Some (Fin (1007 / 20)), r_totalWorkouts = Some 3,
                r_allDaysCompleted = True, r_newWeekGenerated = True, r_currentWeek = 2\<rparr>
   \<and> map_option currentWeek
        (plans (snd (complete_day_legacy (sample_state ''done'' ''today'') ''u1'' (Num (Fin 3)) 1000
                       (generateNextWeekPlan no_conversion True True dayless_reply NoPlan))) ''u1'')
     = Some 2
   \<and> map_option weeklyPlan
        (plans (snd (complete_day_legacy (sample_state ''done'' ''today'') ''u1'' (Num (Fin 3)) 1000
                       (generateNextWeekPlan no_conversion True True dayless_reply NoPlan))) ''u1'')
     = Some []
   \<and> map_option currentWeek
        (plans (snd (complete_day no_conversion no_rendering (sample_state ''done'' ''today'') ''u1''
                       day3_request 1000 None
                       (generateNextWeekPlan no_conversion True True dayless_reply NoPlan))) ''u1'')
     = Some 1
   \<and> map_option (\<lambda>plan. map (\<lambda>d. get_opt d ''status'') (weeklyPlan plan))
        (plans (snd (complete_day no_conversion no_rendering (sample_state ''done'' ''today'') ''u1''
                       day3_request 1000 None
                       (generateNextWeekPlan no_conversion True True dayless_reply NoPlan))) ''u1'')
     = Some [Str ''done'', Str ''done'', Str ''done'']"
proof -
  have g: "generateNextWeekPlan no_conversion True True dayless_reply NoPlan = Some []"
    by (simp add: generateNextWeekPlan_def dayless_reply_def formatted_days_def prop_of_def
        js_or_def)
  show ?thesis
    unfolding g
    by (simp add: complete_day_legacy_def sample_defs handler_defs show_int_def show_nat.simps
        digit_chars)
qed

theorem legacy_rollover_accepts_empty_week_witness:
  "generateNextWeekPlan no_conversion True True dayless_reply NoPlan \<noteq> None
   \<and> map_option currentWeek
        (plans (snd (complete_day_legacy (sample_state ''done'' ''today'') ''u1'' (Num (Fin 3)) 1000
                       (generateNextWeekPlan no_conversion True True dayless_reply NoPlan))) ''u1'')
     \<noteq> map_option currentWeek (plans (sample_state ''done'' ''today'') ''u1'')"
proof -
  note t = legacy_rollover_accepts_empty_week
  from t have a: "generateNextWeekPlan no_conversion True True dayless_reply NoPlan = Some []"
    by (elim conjE)
  from t have b: "map_option currentWeek
        (plans (snd (complete_day_legacy (sample_state ''done'' ''today'') ''u1'' (Num (Fin 3)) 1000
                       (generateNextWeekPlan no_conversion True True dayless_reply NoPlan))) ''u1'')
     = Some 2"
    by (elim conjE)
  have c: "map_option currentWeek (plans (sample_state ''done'' ''today'') ''u1'') = Some 1"
    by (simp add: sample_state_def sample_plan_def)
  show ?thesis unfolding b c using a by simp
qed

text \<open>
  Claim C3: two completion requests for the last open day of the same plan, the second one
  arriving while the first waits for its next week. Neither request consults or sets
  \<^verbatim>\<open>regeneratingPlans\<close> (the marker of the sample state is still 900 at the end), both find
  every day done and both call the generator: two rollover attempts for one completed week. Both
  answer with a new week 2, the second stored week replaces the first, and the workout is counted
  and rewarded twice. The stored week number is 2 after both, because each request increments its
  own copy of the plan it loaded.
\<close>

theorem overlapping_completions_roll_twice:
  "overlapping_completions no_conversion no_rendering (sample_state ''done'' ''today'') ''u1'' day3_request 1000 1001
      (Some (next_week ''A'')) (Some (next_week ''B''))
   = Some
      \<lparr>first_response = Success
         \<lparr>r_dayCompleted = Num (Fin 3), r_mogPointsEarned = Fin (7 / 20),
          r_newMogScore = Some (Fin (1007 / 20)),
          r_totalWorkouts = Some 3, r_allDaysCompleted = True, r_newWeekGenerated = True,
          r_currentWeek = 2\<rparr>,
       second_response = Success
         \<lparr>r_dayCompleted = Num (Fin 3), r_mogPointsEarned = Fin (7 / 20),
          r_newMogScore = Some (Fin (507 / 10)),
          r_totalWorkouts = Some 4, r_allDaysCompleted = True, r_newWeekGenerated = True,
          r_currentWeek = 2\<rparr>,
       final_plan = Some
         \<lparr>currentWeek = 2,
          weeklyPlan = next_week ''B'',
          completedHistory =
            [Obj [(''weekNumber'', Num (Fin 1)), (''dayNumber'', Num (Fin 3)),
                  (''completedAt'', Num (Fin 1000)),
                  (''exercises'', Arr [Obj [(''name'', Str ''Squat''), (''completed'', Bool True)]]),
                  (''targetMuscles'', Arr [])],
             Obj [(''weekNumber'', Num (Fin 1)), (''dayNumber'', Num (Fin 3)),
                  (''completedAt'', Num (Fin 1001)),
                  (''exercises'', Arr [Obj [(''name'', Str ''Squat''), (''completed'', Bool True)]]),
                  (''targetMuscles'', Arr [])]],
          wp_weekId = ''week-2-1001'',
          wp_mission = Str ''Legs''\<rparr>,
       final_user = Some
         \<lparr>user_mogScore = Fin (507 / 10), totalWorkouts = 4, lastWorkoutDate = Some 1001,
          latestScan = Undefined,
          weeklyTrainingPlan =
            Obj [(''weekId'', Str ''week-2-1001''), (''weekNumber'', Num (Fin 2)),
                 (''mission'', Str ''Legs''), (''days'', Arr (next_week ''B'')),
                 (''currentWeek'', Num (Fin 2))]\<rparr>,
       final_marker = Some 900\<rparr>"
  by (simp add: overlapping_completions_def sample_defs handler_defs next_week_def show_int_def
      show_nat.simps digit_chars)

theorem overlapping_completions_roll_twice_witness:
  "map_option final_marker
     (overlapping_completions no_conversion no_rendering (sample_state ''done'' ''today'') ''u1'' day3_request 1000 1001
        (Some (next_week ''A'')) (Some (next_week ''B''))) = Some (Some 900)
   \<and> map_option first_response
     (overlapping_completions no_conversion no_rendering (sample_state ''done'' ''today'') ''u1'' day3_request 1000 1001
        (Some (next_week ''A'')) (Some (next_week ''B'')))
     \<noteq> Some (Status404 ''Day not found in plan'')"
  using overlapping_completions_roll_twice by simp

section \<open>Properties of the background asset queue\<close>

lemma spaced_snoc:
  "spaced d (cs @ [c]) = (spaced d cs \<and> (cs \<noteq> [] \<longrightarrow> ended (last cs) + d \<le> issued c))"
  by (induction d cs rule: spaced.induct) auto

lemma rested_settled: "rested d n st \<Longrightarrow> settled d n st"
  by (simp add: rested_def)

lemma rested_start: "rested d (length (calls st)) st"
  by (simp add: rested_def settled_def)

lemma call_provider_settled:
  assumes "rested d n st"
  shows "settled d n (snd (call_provider provider exerciseName ph st))"
proof -
  from assms have n: "n \<le> length (calls st)" and sp: "spaced d (drop n (calls st))"
    and r: "list_all (\<lambda>c. ended c + d \<le> clock st) (drop n (calls st))"
    and e: "list_all (\<lambda>c. ended c \<le> clock st) (drop n (calls st))"
    by (simp_all add: rested_def settled_def)
  from r have l: "drop n (calls st) \<noteq> [] \<Longrightarrow> ended (last (drop n (calls st))) + d \<le> clock st"
    by (metis last_in_set list_all_iff)
  from e have e': "list_all (\<lambda>c. ended c \<le> clock st + latency (provider (length (calls st))))
      (drop n (calls st))"
    by (auto simp: list_all_iff)
  show ?thesis
    using n sp l e' by (simp add: call_provider_def Let_def settled_def spaced_snoc)
qed

lemma sleep_rested:
  assumes "settled d n st" and "d \<le> ms"
  shows "rested d n (sleep lag ms st)"
  using assms by (auto simp: rested_def settled_def sleep_def list_all_iff)

lemma generate_phases_settled:
  "rested 20000 n st \<Longrightarrow>
   settled 20000 n (snd (generate_phases provider lag exerciseName exerciseId phs i images st))"
proof (induction phs arbitrary: i images st)
  case Nil
  then show ?case by (simp add: rested_settled)
next
  case (Cons ph phs)
  obtain r st1 where c: "call_provider provider exerciseName ph st = (r, st1)"
    by (cases "call_provider provider exerciseName ph st")
  from call_provider_settled[OF Cons.prems, of provider exerciseName ph] c
  have s1: "settled 20000 n st1" by simp
  show ?case
  proof (cases r)
    case (ImageUrl u)
    show ?thesis
    proof (cases "phs = []")
      case True
      with c ImageUrl s1 show ?thesis by simp
    next
      case False
      from sleep_rested[OF s1, of 20000 lag] have "rested 20000 n (sleep lag 20000 st1)" by simp
      from Cons.IH[OF this] c ImageUrl False show ?thesis by simp
    qed
  next
    case NoUrl
    with c s1 show ?thesis by simp
  next
    case FetchThrows
    with c s1 show ?thesis by simp
  qed
qed

lemma settled_cache:
  "settled d n (st\<lparr>aiImageCache := m\<rparr>) = settled d n st"
  by (simp add: settled_def)

lemma generateAIImagesForExercise_settled:
  assumes "rested 20000 n st"
  shows "settled 20000 n (snd (generateAIImagesForExercise provider lag api exerciseName exerciseId st))"
proof -
  note g = generate_phases_settled[OF assms, of provider lag exerciseName exerciseId phases 0 "[]"]
  show ?thesis
    using g rested_settled[OF assms]
    by (auto simp: generateAIImagesForExercise_def settled_cache split: option.splits prod.splits)
qed

lemma rested_queue:
  "rested d n (st\<lparr>backgroundImageQueue := q\<rparr>) = rested d n st"
  by (simp add: rested_def settled_def)

lemma drain_queue_settled:
  "rested 20000 n st \<Longrightarrow> settled 20000 n (drain_queue provider lag api queue st)"
proof (induction queue arbitrary: st)
  case Nil
  then show ?case by (simp add: rested_settled)
next
  case (Cons item rest)
  obtain exerciseName exerciseId where item: "item = (exerciseName, exerciseId)" by (cases item)
  let ?st0 = "st\<lparr>backgroundImageQueue := rest\<rparr>"
  from Cons.prems have r0: "rested 20000 n ?st0" by (simp add: rested_queue)
  show ?case
  proof (cases "aiImageCache ?st0 (cache_key exerciseName) \<noteq> None")
    case True
    with Cons.IH[OF r0] item show ?thesis by (simp add: Let_def)
  next
    case False
    let ?st1 = "snd (generateAIImagesForExercise provider lag api exerciseName exerciseId ?st0)"
    have s1: "settled 20000 n ?st1" by (rule generateAIImagesForExercise_settled[OF r0])
    show ?thesis
    proof (cases "rest = []")
      case True
      with False item s1 show ?thesis by (simp add: Let_def)
    next
      case nonempty: False
      from sleep_rested[OF s1, of 30000 lag] have "rested 20000 n (sleep lag 30000 ?st1)" by simp
      from Cons.IH[OF this] False item nonempty show ?thesis by (simp add: Let_def)
    qed
  qed
qed

lemma processBackgroundQueue_settled:
  assumes "rested 20000 n st"
  shows "settled 20000 n (processBackgroundQueue provider lag api st)"
proof -
  have "rested 20000 n (st\<lparr>isProcessingBackgroundQueue := True\<rparr>)"
    using assms by (simp add: rested_def settled_def)
  from drain_queue_settled[OF this, of provider lag api "backgroundImageQueue st"]
    rested_settled[OF assms]
  show ?thesis by (simp add: processBackgroundQueue_def settled_def)
qed

lemma generate_exercise_image_settled:
  "settled 20000 (length (calls st))
     (snd (generate_exercise_image provider lag api st exerciseName exerciseId now))"
proof -
  let ?st = "st\<lparr>backgroundImageQueue := backgroundImageQueue st @ [(exerciseName, exerciseId)],
                 clock := max (clock st) now\<rparr>"
  have "rested 20000 (length (calls st)) ?st" by (simp add: rested_def settled_def)
  then have p: "settled 20000 (length (calls st)) (processBackgroundQueue provider lag api ?st)"
    by (rule processBackgroundQueue_settled)
  have s: "settled 20000 (length (calls st)) st" by (simp add: settled_def)
  show ?thesis
  proof (cases "aiImageCache st (cache_key exerciseName)")
    case None
    with p s show ?thesis by (auto simp: generate_exercise_image_def)
  next
    case (Some cached)
    with s show ?thesis by (simp add: generate_exercise_image_def)
  qed
qed

lemma background_phases_settled:
  assumes nothrow: "\<forall>k. returned (provider k) \<noteq> FetchThrows"
  shows "rested 15000 n st \<Longrightarrow>
   settled 15000 n (snd (background_phases provider lag exerciseId exerciseName phs i images st))"
proof (induction phs arbitrary: i images st)
  case Nil
  then show ?case by (simp add: rested_settled)
next
  case (Cons ph phs)
  obtain r st1 where c: "call_provider provider exerciseName ph st = (r, st1)"
    by (cases "call_provider provider exerciseName ph st")
  from call_provider_settled[OF Cons.prems, of provider exerciseName ph] c
  have s1: "settled 15000 n st1" by simp
  from c nothrow have r: "r \<noteq> FetchThrows" by (auto simp: call_provider_def Let_def)
  show ?case
  proof (cases "phs = []")
    case True
    with c s1 r show ?thesis by (cases r) simp_all
  next
    case False
    from sleep_rested[OF s1, of 15000 lag] have "rested 15000 n (sleep lag 15000 st1)" by simp
    from Cons.IH[OF this] c False r show ?thesis by (cases r) simp_all
  qed
qed

lemma generateExerciseImagesForBackground_settled:
  assumes "\<forall>k. returned (provider k) \<noteq> FetchThrows"
  shows "settled 15000 (length (calls st))
     (snd (generateExerciseImagesForBackground provider lag api exerciseId exerciseName st))"
proof -
  have s: "settled 15000 (length (calls st)) st" by (simp add: settled_def)
  from background_phases_settled[OF assms rested_start, where st = st and phs = phases and lag = lag
      and exerciseId = exerciseId and exerciseName = exerciseName and i = 0 and images = "[]"]
  show ?thesis
    using s by (auto simp: generateExerciseImagesForBackground_def split: prod.splits)
qed

text \<open>
  Claim C9 as the specification states it fails. A request for \<^verbatim>\<open>Squat\<close> arrives at
  time 0; the provider answers after 5 ms without a URL, so nothing is cached and the consumer
  stops with an empty queue. A request for \<^verbatim>\<open> squat \<close>, the same normalized name,
  arrives at time 6: it is queued, the consumer starts again and calls the provider at once,
  1 ms after the end of the call before.
\<close>

theorem calls_for_one_exercise_one_millisecond_apart:
  "calls (snd (generate_exercise_image failing_provider prompt_timers True
       (snd (generate_exercise_image failing_provider prompt_timers True empty_assets
               ''Squat'' ''ex-1'' 0))
       '' squat '' ''ex-1'' 6))
   = [\<lparr>exercise = ''squat'', call_phase = ''start'', issued = 0, ended = 5\<rparr>,
      \<lparr>exercise = ''squat'', call_phase = ''start'', issued = 6, ended = 11\<rparr>]"
  by (simp add: generate_exercise_image_def processBackgroundQueue_def generateAIImagesForExercise_def
      call_provider_def failing_provider_def prompt_timers_def empty_assets_def phases_def
      cache_key_def trim_def to_lower_char_def is_space_def Let_def char_of_def bit_Suc_0_iff)

text \<open>
  In the background job a call that throws skips the 15 seconds: the three phases of one
  exercise are then requested back to back.
\<close>

lemma background_job_throw_skips_wait:
  "calls (snd (generateExerciseImagesForBackground throwing_provider prompt_timers True
       ''ex-1'' ''Squat'' empty_assets))
   = [\<lparr>exercise = ''squat'', call_phase = ''start'', issued = 0, ended = 5\<rparr>,
      \<lparr>exercise = ''squat'', call_phase = ''middle'', issued = 5, ended = 10\<rparr>,
      \<lparr>exercise = ''squat'', call_phase = ''end'', issued = 10, ended = 15\<rparr>]"
  by (simp add: generateExerciseImagesForBackground_def call_provider_def throwing_provider_def
      prompt_timers_def empty_assets_def phases_def cache_key_def trim_def to_lower_char_def
      is_space_def Let_def char_of_def bit_Suc_0_iff)

text \<open>
  Claim C9, amended. The provider calls that one request to
  \<^verbatim>\<open>POST /api/workout/generate-exercise-image\<close> causes, through the consumer it starts,
  are spaced by 20 seconds, each issued at least that long after the end of the one before; a
  request whose normalized name is in the cache is answered with the cached images and changes
  nothing: nothing is queued, no call is made. The calls of one run of
  \<^verbatim>\<open>generateExerciseImagesForBackground\<close> are spaced by 15 seconds when no call throws.
  Nothing is said about the first call of a run and the last call of the run before.
\<close>

theorem calls_spaced_within_a_run:
  "spaced 20000
     (drop (length (calls st))
        (calls (snd (generate_exercise_image provider lag api st exerciseName exerciseId now))))
   \<and> (exerciseName \<noteq> [] \<and> aiImageCache st (cache_key exerciseName) = Some cached \<longrightarrow>
        generate_exercise_image provider lag api st exerciseName exerciseId now
          = (CachedImages cached, st))
   \<and> ((\<forall>k. returned (provider k) \<noteq> FetchThrows) \<longrightarrow>
        spaced 15000
          (drop (length (calls st))
             (calls (snd (generateExerciseImagesForBackground provider lag api exerciseId
                            exerciseName st)))))"
proof (intro conjI impI)
  from generate_exercise_image_settled[of st provider lag api exerciseName exerciseId now]
  show "spaced 20000
     (drop (length (calls st))
        (calls (snd (generate_exercise_image provider lag api st exerciseName exerciseId now))))"
    by (simp add: settled_def)
next
  assume "exerciseName \<noteq> [] \<and> aiImageCache st (cache_key exerciseName) = Some cached"
  then show "generate_exercise_image provider lag api st exerciseName exerciseId now
          = (CachedImages cached, st)"
    by (simp add: generate_exercise_image_def)
next
  assume "\<forall>k. returned (provider k) \<noteq> FetchThrows"
  from generateExerciseImagesForBackground_settled[OF this, where st = st]
  show "spaced 15000
          (drop (length (calls st))
             (calls (snd (generateExerciseImagesForBackground provider lag api exerciseId
                            exerciseName st))))"
    by (simp add: settled_def)
qed

lemma working_run:
  "calls (snd (generate_exercise_image working_provider prompt_timers True empty_assets
                 ''Squat'' ''ex-1'' 0))
   = [\<lparr>exercise = ''squat'', call_phase = ''start'', issued = 0, ended = 5\<rparr>,
      \<lparr>exercise = ''squat'', call_phase = ''middle'', issued = 20005, ended = 20010\<rparr>,
      \<lparr>exercise = ''squat'', call_phase = ''end'', issued = 40010, ended = 40015\<rparr>]"
  by (simp add: generate_exercise_image_def processBackgroundQueue_def generateAIImagesForExercise_def
      call_provider_def working_provider_def prompt_timers_def empty_assets_def phases_def sleep_def
      cache_key_def trim_def to_lower_char_def is_space_def Let_def char_of_def bit_Suc_0_iff)

lemma working_background_run:
  "calls (snd (generateExerciseImagesForBackground working_provider prompt_timers True
                 ''ex-1'' ''Squat'' empty_assets))
   = [\<lparr>exercise = ''squat'', call_phase = ''start'', issued = 0, ended = 5\<rparr>,
      \<lparr>exercise = ''squat'', call_phase = ''middle'', issued = 15005, ended = 15010\<rparr>,
      \<lparr>exercise = ''squat'', call_phase = ''end'', issued = 30010, ended = 30015\<rparr>]"
  by (simp add: generateExerciseImagesForBackground_def call_provider_def working_provider_def
      prompt_timers_def empty_assets_def phases_def sleep_def cache_key_def trim_def
      to_lower_char_def is_space_def Let_def char_of_def bit_Suc_0_iff)

lemma cached_squat:
  "''Squat'' \<noteq> [] \<and> aiImageCache cached_assets (cache_key ''Squat'') = Some squat_images"
  by (simp add: cached_assets_def empty_assets_def cache_key_def trim_def to_lower_char_def
      is_space_def char_of_def bit_Suc_0_iff)

theorem calls_spaced_within_a_run_witness:
  "spaced 20000
     [\<lparr>exercise = ''squat'', call_phase = ''start'', issued = 0, ended = 5\<rparr>,
      \<lparr>exercise = ''squat'', call_phase = ''middle'', issued = 20005, ended = 20010\<rparr>,
      \<lparr>exercise = ''squat'', call_phase = ''end'', issued = 40010, ended = 40015\<rparr>]
   \<and> generate_exercise_image working_provider prompt_timers True cached_assets ''Squat'' ''ex-1'' 0
       = (CachedImages squat_images, cached_assets)
   \<and> spaced 15000
     [\<lparr>exercise = ''squat'', call_phase = ''start'', issued = 0, ended = 5\<rparr>,
      \<lparr>exercise = ''squat'', call_phase = ''middle'', issued = 15005, ended = 15010\<rparr>,
      \<lparr>exercise = ''squat'', call_phase = ''end'', issued = 30010, ended = 30015\<rparr>]"
proof -
  have nothrow: "\<forall>k. returned (working_provider k) \<noteq> FetchThrows"
    by (simp add: working_provider_def)
  have e: "calls empty_assets = []" by (simp add: empty_assets_def)
  from calls_spaced_within_a_run[where st = empty_assets and provider = working_provider
      and lag = prompt_timers and api = True and exerciseName = "''Squat''"
      and exerciseId = "''ex-1''" and now = 0]
  have a: "spaced 20000
     (drop (length (calls empty_assets))
        (calls (snd (generate_exercise_image working_provider prompt_timers True empty_assets
                       ''Squat'' ''ex-1'' 0))))"
    and b: "spaced 15000
          (drop (length (calls empty_assets))
             (calls (snd (generateExerciseImagesForBackground working_provider prompt_timers True
                            ''ex-1'' ''Squat'' empty_assets))))"
    using nothrow by blast+
  from calls_spaced_within_a_run[where st = cached_assets and provider = working_provider
      and lag = prompt_timers and api = True and exerciseName = "''Squat''"
      and exerciseId = "''ex-1''" and now = 0 and cached = squat_images] cached_squat
  have c: "generate_exercise_image working_provider prompt_timers True cached_assets ''Squat'' ''ex-1'' 0
       = (CachedImages squat_images, cached_assets)"
    by blast
  from a b c show ?thesis
    unfolding working_run working_background_run e by simp
qed

end
